theory Spec2Isabelle
  imports Main
begin

section \<open>Data model\<close>

text \<open>
  The backend is an Express application over a Prisma store. Every table is a list of
  rows in insertion order: \<open>findFirst\<close> and \<open>findUnique\<close> are \<^const>\<open>find\<close> (the first
  row that satisfies the \<open>where\<close> clause), \<open>findMany\<close> is \<^const>\<open>filter\<close>,
  \<open>create\<close> appends a row, \<open>update\<close> rewrites the rows with the given id and
  \<open>delete\<close> removes them. The \<open>orderBy\<close> of a \<open>findMany\<close> is not modelled: answers
  come in table order, except where the query also cuts the answer with \<open>take\<close>.
  Identifiers (UUIDs), tokens, emails and join codes are strings of 7-bit characters;
  instants are milliseconds since the epoch.
\<close>

type_synonym ident = string

datatype ProjectRole = OWNER | ADMIN | MEMBER | VIEWER

datatype Status = PENDING | ACCEPTED | DECLINED | EXPIRED

text \<open>\<open>req.user\<close>, as the \<open>authenticate\<close> middleware fills it from the bearer token.\<close>

record Principal =
  pr_userId :: ident
  pr_tenantId :: ident
  pr_email :: string

text \<open>
  A \<open>User\<close> row with \<open>include: { profile: true }\<close>: \<open>u_profile\<close> is the id of the
  joined \<open>Profile\<close> row, or \<open>None\<close> when the relation is null.
\<close>

record User =
  u_id :: ident
  u_email :: string
  u_tenantId :: ident
  u_profile :: "ident option"

record Project =
  pj_id :: ident
  pj_tenantId :: ident
  pj_name :: string
  pj_code :: "string option"
  pj_createdBy :: "ident option"

record ProjectMember =
  pm_tenantId :: ident
  pm_projectId :: ident
  pm_userId :: ident
  pm_role :: ProjectRole

record Invitation =
  inv_id :: ident
  inv_tenantId :: ident
  inv_projectId :: ident
  inv_email :: string
  inv_role :: ProjectRole
  inv_status :: Status
  inv_invitedBy :: ident
  inv_token :: string
  inv_expiresAt :: int

record JoinRequest =
  jr_id :: ident
  jr_tenantId :: ident
  jr_projectId :: ident
  jr_userId :: ident
  jr_message :: "string option"
  jr_status :: Status

record Notification =
  nt_tenantId :: ident
  nt_userId :: ident
  nt_type :: string
  nt_title :: string
  nt_message :: string
  nt_projectId :: ident
  nt_joinRequestId :: "ident option"
  nt_read :: bool

record ActivityLog =
  al_tenantId :: ident
  al_projectId :: ident
  al_userId :: ident
  al_action :: string
  al_entityType :: string
  al_entityId :: ident
  al_entityName :: "string option"

record Task =
  t_id :: ident
  t_tenantId :: ident
  t_projectId :: ident
  t_title :: string

record TaskAttachment =
  ta_id :: ident
  ta_tenantId :: ident
  ta_taskId :: ident
  ta_userId :: ident
  ta_filePath :: string

record TaskComment =
  tc_id :: ident
  tc_tenantId :: ident
  tc_taskId :: ident
  tc_userId :: ident
  tc_content :: string

record DB =
  users :: "User list"
  projects :: "Project list"
  projectMembers :: "ProjectMember list"
  invitations :: "Invitation list"
  joinRequests :: "JoinRequest list"
  notifications :: "Notification list"
  activityLogs :: "ActivityLog list"
  tasks :: "Task list"
  taskAttachments :: "TaskAttachment list"
  taskComments :: "TaskComment list"

section \<open>The environment of a request\<close>

text \<open>
  What a handler takes from outside the store: the clock (\<open>new Date()\<close>), the id and
  the token the store generates for a created row, and whether the two side-effect
  collaborators work: the mail transport and the notification table. Three functions
  stand for library code that is not part of the repository: \<open>e_uuid\<close> and
  \<open>e_email\<close> are the string checks \<open>z.string().uuid()\<close> and \<open>z.string().email()\<close>
  of the validation library, and \<open>e_addDays t n\<close> is the instant that
  \<open>d.setDate(d.getDate() + n)\<close> gives to a date \<open>d\<close> of instant \<open>t\<close> in the time
  zone of the server.
\<close>

datatype Outcome = Works | Fails

record Env =
  e_now :: int
  e_freshId :: ident
  e_freshToken :: string
  e_mail :: Outcome
  e_sink :: Outcome
  e_uuid :: "string \<Rightarrow> bool"
  e_email :: "string \<Rightarrow> bool"
  e_addDays :: "int \<Rightarrow> int \<Rightarrow> int"

section \<open>Failures\<close>

text \<open>
  A handler either answers with \<open>res.status(n).json({ error: msg })\<close>, here
  \<open>Http n msg\<close>, or an exception reaches \<open>next(error)\<close>, here \<open>Thrown e\<close>.
  \<open>TenantMismatchError\<close> is \<open>new Error('Unauthorized: Tenant mismatch')\<close>, which the
  error handler renders as status 403 with that message; \<open>TypeError\<close> is the
  dereference of a null relation, \<open>ZodError\<close> a request body the schema rejects, and
  \<open>SinkError\<close> a rejected write to the notification table.
\<close>

datatype exn = TenantMismatchError | TypeError | ZodError | SinkError

datatype failure = Http nat string | Thrown exn

type_synonym 'a reply = "failure + 'a"

section \<open>Tenant guard, access check and permission predicates\<close>

definition ensureTenantAccess :: "ident \<Rightarrow> ident \<Rightarrow> exn + unit" where
  "ensureTenantAccess userTenantId resourceTenantId =
     (if userTenantId \<noteq> resourceTenantId then Inl TenantMismatchError else Inr ())"

record Access =
  hasAccess :: bool
  role :: "ProjectRole option"

definition findMembership :: "DB \<Rightarrow> ident \<Rightarrow> ident \<Rightarrow> ident \<Rightarrow> ProjectMember option" where
  "findMembership db projectId userId tenantId =
     find (\<lambda>m. pm_projectId m = projectId \<and> pm_userId m = userId \<and> pm_tenantId m = tenantId)
       (projectMembers db)"

definition findProject :: "DB \<Rightarrow> ident \<Rightarrow> Project option" where
  "findProject db projectId = find (\<lambda>p. pj_id p = projectId) (projects db)"

definition checkProjectAccess :: "DB \<Rightarrow> ident \<Rightarrow> ident \<Rightarrow> ident \<Rightarrow> exn + Access" where
  "checkProjectAccess db userId projectId tenantId =
     (case findMembership db projectId userId tenantId of
        None \<Rightarrow>
          (case findProject db projectId of
             None \<Rightarrow> Inr \<lparr>hasAccess = False, role = None\<rparr>
           | Some project \<Rightarrow>
               (case ensureTenantAccess tenantId (pj_tenantId project) of
                  Inl e \<Rightarrow> Inl e
                | Inr _ \<Rightarrow>
                    if pj_createdBy project = Some userId
                    then Inr \<lparr>hasAccess = True, role = Some OWNER\<rparr>
                    else Inr \<lparr>hasAccess = False, role = None\<rparr>))
      | Some membership \<Rightarrow> Inr \<lparr>hasAccess = True, role = Some (pm_role membership)\<rparr>)"

definition canWrite :: "ProjectRole option \<Rightarrow> bool" where
  "canWrite r = (r = Some OWNER \<or> r = Some ADMIN \<or> r = Some MEMBER)"

definition canAdmin :: "ProjectRole option \<Rightarrow> bool" where
  "canAdmin r = (r = Some OWNER \<or> r = Some ADMIN)"

text \<open>
  The rows of the membership table that belong to \<open>(projectId, userId, tenantId)\<close>, and
  the rows of the project table with a given id, as the resolution algorithm of the
  specification speaks of them.
\<close>

definition memberRows :: "DB \<Rightarrow> ident \<Rightarrow> ident \<Rightarrow> ident \<Rightarrow> ProjectMember list" where
  "memberRows db projectId userId tenantId =
     filter (\<lambda>m. pm_projectId m = projectId \<and> pm_userId m = userId \<and> pm_tenantId m = tenantId)
       (projectMembers db)"

definition projectRows :: "DB \<Rightarrow> ident \<Rightarrow> Project list" where
  "projectRows db projectId = filter (\<lambda>p. pj_id p = projectId) (projects db)"

section \<open>Store operations\<close>

text \<open>\<open>project.members\<close>: the membership rows of a project, whatever their tenant.\<close>

definition membersOf :: "DB \<Rightarrow> ident \<Rightarrow> ProjectMember list" where
  "membersOf db projectId = filter (\<lambda>m. pm_projectId m = projectId) (projectMembers db)"

definition isMemberOf :: "DB \<Rightarrow> ident \<Rightarrow> ident \<Rightarrow> bool" where
  "isMemberOf db projectId userId = list_ex (\<lambda>m. pm_userId m = userId) (membersOf db projectId)"

definition invitation_update :: "DB \<Rightarrow> ident \<Rightarrow> Status \<Rightarrow> DB" where
  "invitation_update db iid s =
     db\<lparr>invitations :=
       map (\<lambda>i. if inv_id i = iid then i\<lparr>inv_status := s\<rparr> else i) (invitations db)\<rparr>"

definition joinRequest_update :: "DB \<Rightarrow> ident \<Rightarrow> Status \<Rightarrow> DB" where
  "joinRequest_update db rid s =
     db\<lparr>joinRequests :=
       map (\<lambda>r. if jr_id r = rid then r\<lparr>jr_status := s\<rparr> else r) (joinRequests db)\<rparr>"

definition projectMember_create :: "DB \<Rightarrow> ProjectMember \<Rightarrow> DB" where
  "projectMember_create db m = db\<lparr>projectMembers := projectMembers db @ [m]\<rparr>"

definition activityLog_create :: "DB \<Rightarrow> ActivityLog \<Rightarrow> DB" where
  "activityLog_create db a = db\<lparr>activityLogs := activityLogs db @ [a]\<rparr>"

text \<open>The one write that the environment can reject.\<close>

definition notification_create :: "Outcome \<Rightarrow> DB \<Rightarrow> Notification \<Rightarrow> exn + DB" where
  "notification_create sink db n =
     (case sink of
        Fails \<Rightarrow> Inl SinkError
      | Works \<Rightarrow> Inr (db\<lparr>notifications := notifications db @ [n]\<rparr>))"


definition project_delete :: "DB \<Rightarrow> ident \<Rightarrow> DB" where
  "project_delete db pid =
     (let gone = map t_id (filter (\<lambda>t. t_projectId t = pid) (tasks db)) in
      db\<lparr>projects := filter (\<lambda>p. pj_id p \<noteq> pid) (projects db),
         projectMembers := filter (\<lambda>m. pm_projectId m \<noteq> pid) (projectMembers db),
         invitations := filter (\<lambda>i. inv_projectId i \<noteq> pid) (invitations db),
         joinRequests := filter (\<lambda>r. jr_projectId r \<noteq> pid) (joinRequests db),
         activityLogs := filter (\<lambda>a. al_projectId a \<noteq> pid) (activityLogs db),
         tasks := filter (\<lambda>t. t_projectId t \<noteq> pid) (tasks db),
         taskAttachments := filter (\<lambda>a. ta_taskId a \<notin> set gone) (taskAttachments db),
         taskComments := filter (\<lambda>c. tc_taskId c \<notin> set gone) (taskComments db)\<rparr>)"

section \<open>Project routes\<close>





text \<open>\<open>DELETE /projects/:id\<close>.\<close>

definition deleteProject :: "DB \<Rightarrow> Principal \<Rightarrow> ident \<Rightarrow> DB \<times> string reply" where
  "deleteProject db user pid =
     (case findProject db pid of
        None \<Rightarrow> (db, Inl (Http 404 ''Project not found''))
      | Some project \<Rightarrow>
          (case ensureTenantAccess (pr_tenantId user) (pj_tenantId project) of
             Inl e \<Rightarrow> (db, Inl (Thrown e))
           | Inr _ \<Rightarrow>
               (case checkProjectAccess db (pr_userId user) (pj_id project) (pr_tenantId user) of
                  Inl e \<Rightarrow> (db, Inl (Thrown e))
                | Inr a \<Rightarrow>
                    if \<not> hasAccess a \<or> \<not> canAdmin (role a)
                    then (db, Inl (Http 403 ''Only owners and admins can delete projects''))
                    else (project_delete db pid, Inr ''Project deleted successfully''))))"




definition findProjectByCode :: "DB \<Rightarrow> string \<Rightarrow> Project option" where
  "findProjectByCode db code = find (\<lambda>p. pj_code p = Some code) (projects db)"





section \<open>Task, attachment and comment routes\<close>

definition findTask :: "DB \<Rightarrow> ident \<Rightarrow> Task option" where
  "findTask db tid = find (\<lambda>t. t_id t = tid) (tasks db)"

















section \<open>Letter case\<close>

text \<open>
  \<open>String.prototype.toUpperCase\<close> and \<open>toLowerCase\<close> on strings of 7-bit
  characters: the letters \<open>a\<close> to \<open>z\<close> (codes 97 to 122) and \<open>A\<close> to \<open>Z\<close>
  (codes 65 to 90) are exchanged, every other character is left as it is.
\<close>

definition toUpperCase_char :: "char \<Rightarrow> char" where
  "toUpperCase_char c =
     (if 97 \<le> (of_char c :: nat) \<and> (of_char c :: nat) \<le> 122
      then char_of ((of_char c :: nat) - 32) else c)"

definition toLowerCase_char :: "char \<Rightarrow> char" where
  "toLowerCase_char c =
     (if 65 \<le> (of_char c :: nat) \<and> (of_char c :: nat) \<le> 90
      then char_of ((of_char c :: nat) + 32) else c)"

definition toUpperCase :: "string \<Rightarrow> string" where
  "toUpperCase s = map toUpperCase_char s"

definition toLowerCase :: "string \<Rightarrow> string" where
  "toLowerCase s = map toLowerCase_char s"

text \<open>
  The comparison of the client's invitation page,
  \<open>user.email?.toLowerCase() !== invitation.email.toLowerCase()\<close>, negated.
\<close>

definition sameIgnoringCase :: "string \<Rightarrow> string \<Rightarrow> bool" where
  "sameIgnoringCase a b = (toLowerCase a = toLowerCase b)"

section \<open>Invitation routes\<close>

text \<open>
  \<open>sendInvitationEmail\<close> returns without sending when no transport is configured and
  catches the failure of \<open>sendMail\<close> itself: it never throws.
\<close>

definition sendInvitationEmail :: "Outcome \<Rightarrow> exn + unit" where
  "sendInvitationEmail transport = (case transport of Works \<Rightarrow> Inr () | Fails \<Rightarrow> Inr ())"

definition findPendingInvitation :: "DB \<Rightarrow> string \<Rightarrow> Invitation option" where
  "findPendingInvitation db token =
     find (\<lambda>i. inv_token i = token \<and> inv_status i = PENDING) (invitations db)"

text \<open>
  \<open>POST /invitations\<close>. \<open>createInvitationSchema.parse\<close> comes first: the project id
  is to be a UUID, the email an email address, and the role one of Admin, Member,
  Viewer or absent.
\<close>

definition createInvitation ::
  "Env \<Rightarrow> DB \<Rightarrow> Principal \<Rightarrow> ident \<Rightarrow> string \<Rightarrow> ProjectRole option \<Rightarrow> DB \<times> Invitation reply" where
  "createInvitation env db user projectId email roleOpt =
     (if \<not> e_uuid env projectId \<or> \<not> e_email env email \<or> roleOpt = Some OWNER
      then (db, Inl (Thrown ZodError))
      else
       (case findProject db projectId of
          None \<Rightarrow> (db, Inl (Http 404 ''Project not found''))
        | Some project \<Rightarrow>
            (case ensureTenantAccess (pr_tenantId user) (pj_tenantId project) of
               Inl e \<Rightarrow> (db, Inl (Thrown e))
             | Inr _ \<Rightarrow>
                 (case checkProjectAccess db (pr_userId user) (pj_id project) (pr_tenantId user) of
                    Inl e \<Rightarrow> (db, Inl (Thrown e))
                  | Inr a \<Rightarrow>
                      if \<not> hasAccess a \<or> \<not> canAdmin (role a)
                      then (db, Inl (Http 403 ''Only owners and admins can invite members''))
                      else
                        (case (case find (\<lambda>u. u_email u = email \<and> u_tenantId u = pr_tenantId user)
                                      (users db) of
                                 None \<Rightarrow> Inr False
                               | Some existingUser \<Rightarrow>
                                   (case u_profile existingUser of
                                      None \<Rightarrow> Inl TypeError
                                    | Some profileId \<Rightarrow>
                                        Inr (find (\<lambda>m. pm_projectId m = projectId \<and>
                                                        pm_userId m = profileId)
                                               (projectMembers db) \<noteq> None))) of
                           Inl e \<Rightarrow> (db, Inl (Thrown e))
                         | Inr True \<Rightarrow>
                             (db, Inl (Http 409 ''User is already a member of this project''))
                         | Inr False \<Rightarrow>
                             if find (\<lambda>i. inv_projectId i = projectId \<and> inv_email i = email \<and>
                                          inv_status i = PENDING) (invitations db) \<noteq> None
                             then (db, Inl (Http 409 ''Invitation already sent''))
                             else
                               (let invitation =
                                      \<lparr>inv_id = e_freshId env,
                                       inv_tenantId = pr_tenantId user,
                                       inv_projectId = projectId,
                                       inv_email = email,
                                       inv_role = (case roleOpt of None \<Rightarrow> MEMBER | Some r \<Rightarrow> r),
                                       inv_status = PENDING,
                                       inv_invitedBy = pr_userId user,
                                       inv_token = e_freshToken env,
                                       inv_expiresAt = e_addDays env (e_now env) 7\<rparr>;
                                    db1 = db\<lparr>invitations := invitations db @ [invitation]\<rparr>
                                in (case sendInvitationEmail (e_mail env) of
                                      Inl emailError \<Rightarrow> (db1, Inr invitation)
                                    | Inr _ \<Rightarrow> (db1, Inr invitation))))))))"

text \<open>\<open>GET /invitations/:token\<close>.\<close>

definition getInvitation :: "Env \<Rightarrow> DB \<Rightarrow> string \<Rightarrow> DB \<times> Invitation reply" where
  "getInvitation env db token =
     (case findPendingInvitation db token of
        None \<Rightarrow> (db, Inl (Http 404 ''Invitation not found''))
      | Some invitation \<Rightarrow>
          if e_now env > inv_expiresAt invitation
          then (invitation_update db (inv_id invitation) EXPIRED,
                Inl (Http 410 ''Invitation has expired''))
          else (db, Inr invitation))"

text \<open>\<open>POST /invitations/:token/accept\<close>.\<close>

definition acceptInvitation :: "Env \<Rightarrow> DB \<Rightarrow> Principal \<Rightarrow> string \<Rightarrow> DB \<times> string reply" where
  "acceptInvitation env db reqUser token =
     (case findPendingInvitation db token of
        None \<Rightarrow> (db, Inl (Http 404 ''Invitation not found''))
      | Some invitation \<Rightarrow>
          if e_now env > inv_expiresAt invitation
          then (invitation_update db (inv_id invitation) EXPIRED,
                Inl (Http 410 ''Invitation has expired''))
          else
            (let user = find (\<lambda>u. u_id u = pr_userId reqUser) (users db) in
             if map_option u_email user \<noteq> Some (inv_email invitation)
             then (db, Inl (Http 403 ''Invitation email does not match your account''))
             else
               (case ensureTenantAccess (pr_tenantId reqUser) (inv_tenantId invitation) of
                  Inl e \<Rightarrow> (db, Inl (Thrown e))
                | Inr _ \<Rightarrow>
                    (case Option.bind user u_profile of
                       None \<Rightarrow> (db, Inl (Thrown TypeError))
                     | Some profileId \<Rightarrow>
                         if find (\<lambda>m. pm_projectId m = inv_projectId invitation \<and>
                                      pm_userId m = profileId) (projectMembers db) \<noteq> None
                         then (invitation_update db (inv_id invitation) ACCEPTED,
                               Inl (Http 409 ''Already a member of this project''))
                         else
                           (let db1 = projectMember_create db
                                        \<lparr>pm_tenantId = inv_tenantId invitation,
                                         pm_projectId = inv_projectId invitation,
                                         pm_userId = profileId,
                                         pm_role = inv_role invitation\<rparr>;
                                db2 = invitation_update db1 (inv_id invitation) ACCEPTED;
                                db3 = activityLog_create db2
                                        \<lparr>al_tenantId = inv_tenantId invitation,
                                         al_projectId = inv_projectId invitation,
                                         al_userId = pr_userId reqUser,
                                         al_action = ''joined'',
                                         al_entityType = ''project'',
                                         al_entityId = inv_projectId invitation,
                                         al_entityName = None\<rparr>
                            in (db3, Inr ''Invitation accepted successfully''))))))"

section \<open>Join-request routes\<close>


definition findPendingRequest :: "DB \<Rightarrow> ident \<Rightarrow> ident \<Rightarrow> JoinRequest option" where
  "findPendingRequest db projectId userId =
     find (\<lambda>r. jr_projectId r = projectId \<and> jr_userId r = userId \<and> jr_status r = PENDING)
       (joinRequests db)"


text \<open>
  \<open>POST /join-requests\<close>. The schema rejects an empty \<open>projectCode\<close>;
  \<open>message || null\<close> stores an empty message as null. The notification goes to the
  first Owner row of the project and, without one, to its creator.
\<close>

definition createJoinRequest ::
  "Env \<Rightarrow> DB \<Rightarrow> Principal \<Rightarrow> string \<Rightarrow> string option \<Rightarrow> DB \<times> JoinRequest reply" where
  "createJoinRequest env db user projectCode message =
     (if projectCode = [] then (db, Inl (Thrown ZodError))
      else
       (case findProjectByCode db (toUpperCase projectCode) of
          None \<Rightarrow> (db, Inl (Http 404 ''Project not found with this code''))
        | Some project \<Rightarrow>
            if pj_code project = None \<or> pj_code project = Some []
            then (db, Inl (Http 400
              ''This project does not have a code assigned. Please contact the project owner.''))
            else if pj_tenantId project \<noteq> pr_tenantId user
            then (db, Inl (Http 403 ''You can only join projects within your organization''))
            else if isMemberOf db (pj_id project) (pr_userId user)
            then (db, Inl (Http 400 ''You are already a member of this project''))
            else if findPendingRequest db (pj_id project) (pr_userId user) \<noteq> None
            then (db, Inl (Http 400 ''You already have a pending request for this project''))
            else
              (let joinRequest =
                     \<lparr>jr_id = e_freshId env,
                      jr_tenantId = pr_tenantId user,
                      jr_projectId = pj_id project,
                      jr_userId = pr_userId user,
                      jr_message = (if message = Some [] then None else message),
                      jr_status = PENDING\<rparr>;
                   db1 = db\<lparr>joinRequests := joinRequests db @ [joinRequest]\<rparr>;
                   ownerId =
                     (case find (\<lambda>m. pm_role m = OWNER) (membersOf db (pj_id project)) of
                        Some ownerMember \<Rightarrow> Some (pm_userId ownerMember)
                      | None \<Rightarrow> pj_createdBy project)
               in (case ownerId of
                     None \<Rightarrow> (db1, Inr joinRequest)
                   | Some owner \<Rightarrow>
                       (case notification_create (e_sink env) db1
                               \<lparr>nt_tenantId = pr_tenantId user,
                                nt_userId = owner,
                                nt_type = ''JOIN_REQUEST'',
                                nt_title = ''New Join Request'',
                                nt_message = pr_email user @ '' wants to join project '' @
                                             [CHR 0x22] @ pj_name project @ [CHR 0x22],
                                nt_projectId = pj_id project,
                                nt_joinRequestId = Some (jr_id joinRequest),
                                nt_read = False\<rparr> of
                          Inl notifError \<Rightarrow> (db1, Inr joinRequest)
                        | Inr db2 \<Rightarrow> (db2, Inr joinRequest))))))"

definition findJoinRequest :: "DB \<Rightarrow> ident \<Rightarrow> JoinRequest option" where
  "findJoinRequest db requestId = find (\<lambda>r. jr_id r = requestId) (joinRequests db)"

text \<open>The caller's Owner or Admin row on a project, whatever its tenant.\<close>

definition findAdminMembership :: "DB \<Rightarrow> ident \<Rightarrow> ident \<Rightarrow> ProjectMember option" where
  "findAdminMembership db projectId userId =
     find (\<lambda>m. pm_projectId m = projectId \<and> pm_userId m = userId \<and>
               (pm_role m = OWNER \<or> pm_role m = ADMIN)) (projectMembers db)"


text \<open>
  \<open>POST /join-requests/:requestId/accept\<close>. \<open>joinRequest.project\<close> is the joined
  project; its dereference throws when the relation is null.
\<close>

definition acceptJoinRequest :: "Env \<Rightarrow> DB \<Rightarrow> Principal \<Rightarrow> ident \<Rightarrow> DB \<times> string reply" where
  "acceptJoinRequest env db user requestId =
     (case findJoinRequest db requestId of
        None \<Rightarrow> (db, Inl (Http 404 ''Join request not found''))
      | Some joinRequest \<Rightarrow>
          (case findAdminMembership db (jr_projectId joinRequest) (pr_userId user) of
             None \<Rightarrow>
               (db, Inl (Http 403 ''You do not have permission to accept join requests''))
           | Some membership \<Rightarrow>
               (case findProject db (jr_projectId joinRequest) of
                  None \<Rightarrow> (db, Inl (Thrown TypeError))
                | Some project \<Rightarrow>
                    if list_ex (\<lambda>m. pm_userId m = jr_userId joinRequest)
                         (membersOf db (pj_id project))
                    then (db, Inl (Http 400 ''User is already a member''))
                    else
                      (let db1 = joinRequest_update db requestId ACCEPTED;
                           db2 = projectMember_create db1
                                   \<lparr>pm_tenantId = jr_tenantId joinRequest,
                                    pm_projectId = jr_projectId joinRequest,
                                    pm_userId = jr_userId joinRequest,
                                    pm_role = MEMBER\<rparr>
                       in (case notification_create (e_sink env) db2
                                  \<lparr>nt_tenantId = jr_tenantId joinRequest,
                                   nt_userId = jr_userId joinRequest,
                                   nt_type = ''PROJECT_UPDATE'',
                                   nt_title = ''Join Request Accepted'',
                                   nt_message = ''Your request to join '' @ [CHR 0x22] @
                                                pj_name project @ [CHR 0x22] @
                                                '' has been accepted'',
                                   nt_projectId = jr_projectId joinRequest,
                                   nt_joinRequestId = None,
                                   nt_read = False\<rparr> of
                             Inl e \<Rightarrow> (db2, Inl (Thrown e))
                           | Inr db3 \<Rightarrow> (db3, Inr ''Join request accepted''))))))"

text \<open>\<open>POST /join-requests/:requestId/decline\<close>.\<close>

definition declineJoinRequest :: "Env \<Rightarrow> DB \<Rightarrow> Principal \<Rightarrow> ident \<Rightarrow> DB \<times> string reply" where
  "declineJoinRequest env db user requestId =
     (case findJoinRequest db requestId of
        None \<Rightarrow> (db, Inl (Http 404 ''Join request not found''))
      | Some joinRequest \<Rightarrow>
          (case findAdminMembership db (jr_projectId joinRequest) (pr_userId user) of
             None \<Rightarrow>
               (db, Inl (Http 403 ''You do not have permission to decline join requests''))
           | Some membership \<Rightarrow>
               (let db1 = joinRequest_update db requestId DECLINED in
                (case findProject db (jr_projectId joinRequest) of
                   None \<Rightarrow> (db1, Inl (Thrown TypeError))
                 | Some project \<Rightarrow>
                     (case notification_create (e_sink env) db1
                             \<lparr>nt_tenantId = jr_tenantId joinRequest,
                              nt_userId = jr_userId joinRequest,
                              nt_type = ''PROJECT_UPDATE'',
                              nt_title = ''Join Request Declined'',
                              nt_message = ''Your request to join '' @ [CHR 0x22] @
                                           pj_name project @ [CHR 0x22] @
                                           '' has been declined'',
                              nt_projectId = jr_projectId joinRequest,
                              nt_joinRequestId = None,
                              nt_read = False\<rparr> of
                        Inl e \<Rightarrow> (db1, Inl (Thrown e))
                      | Inr db2 \<Rightarrow> (db2, Inr ''Join request declined''))))))"

section \<open>Notions the claims speak of\<close>

text \<open>The key on which membership rows are to be unique.\<close>

definition memberKey :: "ProjectMember \<Rightarrow> ident \<times> ident" where
  "memberKey m = (pm_projectId m, pm_userId m)"

text \<open>
  A sequence of requests on one invitation token, each at its own instant: lookups and
  acceptances in any order. \<open>invitationCalls\<close> threads the store through them and
  collects, for each, the failure it answered with (\<open>None\<close> for a success).
\<close>

datatype InvitationCall = Lookup | Accept Principal

definition invitationCall :: "Env \<Rightarrow> DB \<Rightarrow> string \<Rightarrow> InvitationCall \<Rightarrow> DB \<times> failure option" where
  "invitationCall env db token c =
     (case c of
        Lookup \<Rightarrow>
          (case getInvitation env db token of
             (db', Inl f) \<Rightarrow> (db', Some f) | (db', Inr _) \<Rightarrow> (db', None))
      | Accept user \<Rightarrow>
          (case acceptInvitation env db user token of
             (db', Inl f) \<Rightarrow> (db', Some f) | (db', Inr _) \<Rightarrow> (db', None)))"

fun invitationCalls ::
  "DB \<Rightarrow> string \<Rightarrow> (Env \<times> InvitationCall) list \<Rightarrow> DB \<times> failure option list" where
  "invitationCalls db token [] = (db, [])"
| "invitationCalls db token ((env, c) # cs) =
     (case invitationCall env db token c of
        (db1, r) \<Rightarrow> (case invitationCalls db1 token cs of (db2, rs) \<Rightarrow> (db2, r # rs)))"

text \<open>Every invitation that carries the token expires before instant \<open>t\<close>.\<close>

definition expiredBefore :: "int \<Rightarrow> string \<Rightarrow> DB \<Rightarrow> bool" where
  "expiredBefore t token db =
     list_all (\<lambda>i. inv_token i = token \<longrightarrow> inv_expiresAt i < t) (invitations db)"

text \<open>
  The tenant of the user row and of the project row that an id refers to
  (\<open>findUnique\<close> by id).
\<close>

definition userTenant :: "DB \<Rightarrow> ident \<Rightarrow> ident option" where
  "userTenant db userId = map_option u_tenantId (find (\<lambda>u. u_id u = userId) (users db))"

definition projectTenant :: "DB \<Rightarrow> ident \<Rightarrow> ident option" where
  "projectTenant db projectId = map_option pj_tenantId (findProject db projectId)"

text \<open>
  A store whose rows carry their tenant ids consistently: project ids are unique; a
  profile has the id of its user; the creator of a project is a user of the tenant of
  the project; a membership row carries the tenant of its project and of its user; an
  invitation carries the tenant of its project; a join request carries the tenant of
  its project and of its requester. The comments of the handlers state as much
  (\<open>Profile.id is the same as User.id\<close>, \<open>membership tenantId = project tenantId\<close>,
  \<open>members should be in the same tenant as the project\<close>).
\<close>

definition tenantConsistent :: "DB \<Rightarrow> bool" where
  "tenantConsistent db =
     (distinct (map pj_id (projects db)) \<and>
      list_all (\<lambda>u. u_profile u = Some (u_id u)) (users db) \<and>
      list_all (\<lambda>p. case pj_createdBy p of
                       None \<Rightarrow> True
                     | Some creator \<Rightarrow> userTenant db creator = Some (pj_tenantId p))
        (projects db) \<and>
      list_all (\<lambda>m. projectTenant db (pm_projectId m) = Some (pm_tenantId m) \<and>
                     userTenant db (pm_userId m) = Some (pm_tenantId m))
        (projectMembers db) \<and>
      list_all (\<lambda>i. projectTenant db (inv_projectId i) = Some (inv_tenantId i))
        (invitations db) \<and>
      list_all (\<lambda>r. projectTenant db (jr_projectId r) = Some (jr_tenantId r) \<and>
                     userTenant db (jr_userId r) = Some (jr_tenantId r))
        (joinRequests db))"


section \<open>An example store\<close>

text \<open>
  Two tenants. Tenant \<open>T1\<close> has the project Apollo (code \<open>ABC123\<close>), created and
  owned by Alice, with Dave as Admin and Frank as Member, and the project Borealis,
  created by Bob, which has no membership row at all. Tenant \<open>T2\<close> has the project
  Zephyr (code \<open>XYZ789\<close>), created and owned by Carol, and a second user, Hugo.
  Gina is a user of \<open>T1\<close> without any membership. Erin signed up as \<open>Erin@x.com\<close>.
  The ids of the projects are written out as UUIDs, since two routes validate them.
\<close>

abbreviation apolloId :: ident where
  "apolloId \<equiv> ''a0000000-0000-4000-8000-000000000001''"

abbreviation zephyrId :: ident where
  "zephyrId \<equiv> ''b0000000-0000-4000-8000-000000000002''"

abbreviation borealisId :: ident where
  "borealisId \<equiv> ''c0000000-0000-4000-8000-000000000003''"

definition alice :: Principal where
  "alice = \<lparr>pr_userId = ''u1'', pr_tenantId = ''T1'', pr_email = ''alice@x.com''\<rparr>"

definition bob :: Principal where
  "bob = \<lparr>pr_userId = ''u2'', pr_tenantId = ''T1'', pr_email = ''bob@x.com''\<rparr>"

definition dave :: Principal where
  "dave = \<lparr>pr_userId = ''u4'', pr_tenantId = ''T1'', pr_email = ''dave@x.com''\<rparr>"

definition erin :: Principal where
  "erin = \<lparr>pr_userId = ''u5'', pr_tenantId = ''T1'', pr_email = ''Erin@x.com''\<rparr>"

definition frank :: Principal where
  "frank = \<lparr>pr_userId = ''u6'', pr_tenantId = ''T1'', pr_email = ''frank@x.com''\<rparr>"

definition gina :: Principal where
  "gina = \<lparr>pr_userId = ''u7'', pr_tenantId = ''T1'', pr_email = ''gina@x.com''\<rparr>"

definition demoUsers :: "User list" where
  "demoUsers =
     [\<lparr>u_id = ''u1'', u_email = ''alice@x.com'', u_tenantId = ''T1'', u_profile = Some ''u1''\<rparr>,
      \<lparr>u_id = ''u2'', u_email = ''bob@x.com'', u_tenantId = ''T1'', u_profile = Some ''u2''\<rparr>,
      \<lparr>u_id = ''u3'', u_email = ''carol@y.com'', u_tenantId = ''T2'', u_profile = Some ''u3''\<rparr>,
      \<lparr>u_id = ''u4'', u_email = ''dave@x.com'', u_tenantId = ''T1'', u_profile = Some ''u4''\<rparr>,
      \<lparr>u_id = ''u5'', u_email = ''Erin@x.com'', u_tenantId = ''T1'', u_profile = Some ''u5''\<rparr>,
      \<lparr>u_id = ''u6'', u_email = ''frank@x.com'', u_tenantId = ''T1'', u_profile = Some ''u6''\<rparr>,
      \<lparr>u_id = ''u7'', u_email = ''gina@x.com'', u_tenantId = ''T1'', u_profile = Some ''u7''\<rparr>,
      \<lparr>u_id = ''u8'', u_email = ''hugo@y.com'', u_tenantId = ''T2'', u_profile = Some ''u8''\<rparr>]"

definition zephyr :: Project where
  "zephyr = \<lparr>pj_id = zephyrId, pj_tenantId = ''T2'', pj_name = ''Zephyr'',
              pj_code = Some ''XYZ789'', pj_createdBy = Some ''u3''\<rparr>"

definition apollo :: Project where
  "apollo = \<lparr>pj_id = apolloId, pj_tenantId = ''T1'', pj_name = ''Apollo'',
              pj_code = Some ''ABC123'', pj_createdBy = Some ''u1''\<rparr>"

definition demoProjects :: "Project list" where
  "demoProjects =
     [apollo, zephyr,
      \<lparr>pj_id = borealisId, pj_tenantId = ''T1'', pj_name = ''Borealis'',
       pj_code = Some ''QRS456'', pj_createdBy = Some ''u2''\<rparr>]"

definition ownerRow :: ProjectMember where
  "ownerRow = \<lparr>pm_tenantId = ''T1'', pm_projectId = apolloId, pm_userId = ''u1'', pm_role = OWNER\<rparr>"

definition demoMembers :: "ProjectMember list" where
  "demoMembers =
     [ownerRow,
      \<lparr>pm_tenantId = ''T1'', pm_projectId = apolloId, pm_userId = ''u4'', pm_role = ADMIN\<rparr>,
      \<lparr>pm_tenantId = ''T1'', pm_projectId = apolloId, pm_userId = ''u6'', pm_role = MEMBER\<rparr>,
      \<lparr>pm_tenantId = ''T2'', pm_projectId = zephyrId, pm_userId = ''u3'', pm_role = OWNER\<rparr>]"

text \<open>
  Invitations to Apollo: \<open>tok1\<close> for Bob and \<open>tok5\<close> for \<open>erin@x.com\<close>, both valid
  until instant 1000, and \<open>tok8\<close> for Gina, valid until instant 100. \<open>tok2\<close> invites
  Bob's address to Zephyr, in the other tenant. \<open>tok4\<close> and \<open>tok6\<close> are the invitations
  that Dave and Frank have accepted.
\<close>

definition invite1 :: Invitation where
  "invite1 =
     \<lparr>inv_id = ''i1'', inv_tenantId = ''T1'', inv_projectId = apolloId, inv_email = ''bob@x.com'',
      inv_role = VIEWER, inv_status = PENDING, inv_invitedBy = ''u1'', inv_token = ''tok1'',
      inv_expiresAt = 1000\<rparr>"

definition invite8 :: Invitation where
  "invite8 =
     \<lparr>inv_id = ''i8'', inv_tenantId = ''T1'', inv_projectId = apolloId, inv_email = ''gina@x.com'',
      inv_role = MEMBER, inv_status = PENDING, inv_invitedBy = ''u1'', inv_token = ''tok8'',
      inv_expiresAt = 100\<rparr>"

definition demoInvitations :: "Invitation list" where
  "demoInvitations =
     [invite1,
      \<lparr>inv_id = ''i5'', inv_tenantId = ''T1'', inv_projectId = apolloId, inv_email = ''erin@x.com'',
       inv_role = MEMBER, inv_status = PENDING, inv_invitedBy = ''u1'', inv_token = ''tok5'',
       inv_expiresAt = 1000\<rparr>,
      invite8,
      \<lparr>inv_id = ''i2'', inv_tenantId = ''T2'', inv_projectId = zephyrId, inv_email = ''bob@x.com'',
       inv_role = MEMBER, inv_status = PENDING, inv_invitedBy = ''u3'', inv_token = ''tok2'',
       inv_expiresAt = 1000\<rparr>,
      \<lparr>inv_id = ''i4'', inv_tenantId = ''T1'', inv_projectId = apolloId, inv_email = ''dave@x.com'',
       inv_role = ADMIN, inv_status = ACCEPTED, inv_invitedBy = ''u1'', inv_token = ''tok4'',
       inv_expiresAt = 400\<rparr>,
      \<lparr>inv_id = ''i6'', inv_tenantId = ''T1'', inv_projectId = apolloId, inv_email = ''frank@x.com'',
       inv_role = MEMBER, inv_status = ACCEPTED, inv_invitedBy = ''u1'', inv_token = ''tok6'',
       inv_expiresAt = 400\<rparr>]"

text \<open>
  Join requests for Apollo: \<open>r6\<close> by Frank, who has become a member since, \<open>r7\<close> by
  Bob, declined, and \<open>r9\<close> by Gina, pending. \<open>r2\<close> is Hugo's request for Zephyr in
  \<open>T2\<close>.
\<close>

definition request6 :: JoinRequest where
  "request6 = \<lparr>jr_id = ''r6'', jr_tenantId = ''T1'', jr_projectId = apolloId, jr_userId = ''u6'',
               jr_message = None, jr_status = PENDING\<rparr>"

definition request7 :: JoinRequest where
  "request7 = \<lparr>jr_id = ''r7'', jr_tenantId = ''T1'', jr_projectId = apolloId, jr_userId = ''u2'',
               jr_message = None, jr_status = DECLINED\<rparr>"

definition request9 :: JoinRequest where
  "request9 = \<lparr>jr_id = ''r9'', jr_tenantId = ''T1'', jr_projectId = apolloId, jr_userId = ''u7'',
               jr_message = Some ''hello'', jr_status = PENDING\<rparr>"

definition demoRequests :: "JoinRequest list" where
  "demoRequests =
     [request6, request7, request9,
      \<lparr>jr_id = ''r2'', jr_tenantId = ''T2'', jr_projectId = zephyrId, jr_userId = ''u8'',
       jr_message = None, jr_status = PENDING\<rparr>]"

definition demoTasks :: "Task list" where
  "demoTasks =
     [\<lparr>t_id = ''t1'', t_tenantId = ''T1'', t_projectId = apolloId, t_title = ''Launch''\<rparr>,
      \<lparr>t_id = ''t2'', t_tenantId = ''T2'', t_projectId = zephyrId, t_title = ''Sail''\<rparr>]"

definition demo :: DB where
  "demo =
     \<lparr>users = demoUsers,
      projects = demoProjects,
      projectMembers = demoMembers,
      invitations = demoInvitations,
      joinRequests = demoRequests,
      notifications = [],
      activityLogs = [],
      tasks = demoTasks,
      taskAttachments =
        [\<lparr>ta_id = ''a2'', ta_tenantId = ''T2'', ta_taskId = ''t2'', ta_userId = ''u3'',
          ta_filePath = ''/api/files/1-2.png''\<rparr>],
      taskComments =
        [\<lparr>tc_id = ''c2'', tc_tenantId = ''T2'', tc_taskId = ''t2'', tc_userId = ''u3'',
          tc_content = ''Aye''\<rparr>]\<rparr>"


text \<open>
  The string checks of the example environments: five groups of 8, 4, 4, 4 and 12
  hexadecimal digits between hyphens, and a name, an \<open>@\<close> and a host with a dot inside
  it. Their days have 86400000 ms.
\<close>

definition hexDigit :: "char \<Rightarrow> bool" where
  "hexDigit c = (c \<in> set ''0123456789abcdefABCDEF'')"

definition uuidShape :: "string \<Rightarrow> bool" where
  "uuidShape s =
     (length s = 36 \<and>
      list_all hexDigit (take 8 s) \<and> take 1 (drop 8 s) = ''-'' \<and>
      list_all hexDigit (take 4 (drop 9 s)) \<and> take 1 (drop 13 s) = ''-'' \<and>
      list_all hexDigit (take 4 (drop 14 s)) \<and> take 1 (drop 18 s) = ''-'' \<and>
      list_all hexDigit (take 4 (drop 19 s)) \<and> take 1 (drop 23 s) = ''-'' \<and>
      list_all hexDigit (drop 24 s))"

definition emailShape :: "string \<Rightarrow> bool" where
  "emailShape s =
     (let name = takeWhile (\<lambda>c. c \<noteq> CHR ''@'') s;
          host = drop (Suc (length name)) s
      in name \<noteq> [] \<and> length name < length s \<and> CHR ''@'' \<notin> set host \<and>
         CHR ''.'' \<in> set (butlast (drop 1 host)) \<and> CHR '' '' \<notin> set s)"

text \<open>Instant 500, with both collaborators working, and with the notification table failing.\<close>

definition env500 :: Env where
  "env500 = \<lparr>e_now = 500, e_freshId = ''n1'', e_freshToken = ''tok9'',
              e_mail = Works, e_sink = Works,
              e_uuid = uuidShape, e_email = emailShape,
              e_addDays = (\<lambda>t n. t + n * 86400000)\<rparr>"

text \<open>The store after Bob has accepted his invitation at instant 500.\<close>

definition afterBob :: DB where
  "afterBob = fst (acceptInvitation env500 demo bob ''tok1'')"

definition envSinkDown :: Env where
  "envSinkDown = \<lparr>e_now = 500, e_freshId = ''n1'', e_freshToken = ''tok9'',
                  e_mail = Fails, e_sink = Fails,
                  e_uuid = uuidShape, e_email = emailShape,
                  e_addDays = (\<lambda>t n. t + n * 86400000)\<rparr>"

section \<open>Basic facts\<close>

lemmas demo_defs =
  demo_def demoUsers_def demoProjects_def demoMembers_def demoInvitations_def
  demoRequests_def demoTasks_def zephyr_def apollo_def invite1_def invite8_def
  request6_def request7_def request9_def ownerRow_def

lemmas access_defs =
  checkProjectAccess_def findMembership_def findProject_def ensureTenantAccess_def
  canAdmin_def canWrite_def memberRows_def projectRows_def membersOf_def isMemberOf_def

lemma eq_char_of_iff: "c = char_of n \<longleftrightarrow> of_char c = take_bit 8 n"
  using char_of_eq_iff [of n c] by auto

lemmas case_defs =
  toUpperCase_def toUpperCase_char_def toLowerCase_def toLowerCase_char_def
  sameIgnoringCase_def char_of_eq_iff eq_char_of_iff

lemma demo_checks:
  "uuidShape apolloId" "uuidShape zephyrId" "\<not> uuidShape ''p2''"
  "emailShape ''zoe@x.com''" "emailShape ''x@x.com''" "\<not> emailShape ''not-an-email''"
  by (simp_all add: uuidShape_def emailShape_def hexDigit_def)

lemma find_filter_Nil: "filter P xs = [] \<Longrightarrow> find P xs = None"
  by (induction xs) (auto split: if_splits)

lemma find_filter_Cons: "filter P xs = y # ys \<Longrightarrow> find P xs = Some y"
  by (induction xs) (auto split: if_splits)

lemma find_Some_holds: "find P xs = Some y \<Longrightarrow> P y \<and> y \<in> set xs"
  by (induction xs) (auto split: if_splits)

lemma findPendingInvitation_Some:
  "findPendingInvitation db token = Some i \<Longrightarrow>
     i \<in> set (invitations db) \<and> inv_token i = token \<and> inv_status i = PENDING"
  unfolding findPendingInvitation_def by (auto dest: find_Some_holds)

lemma findProject_id: "findProject db pid = Some p \<Longrightarrow> pj_id p = pid"
  unfolding findProject_def by (auto dest: find_Some_holds)

lemma findTask_id: "findTask db tid = Some t \<Longrightarrow> t_id t = tid"
  unfolding findTask_def by (auto dest: find_Some_holds)

lemma checkProjectAccess_role:
  "checkProjectAccess db userId projectId tenantId = Inr a \<Longrightarrow> hasAccess a = (role a \<noteq> None)"
  by (auto simp: checkProjectAccess_def split: option.splits sum.splits if_splits)

lemma projectMembers_invitation_update [simp]:
  "projectMembers (invitation_update db iid s) = projectMembers db"
  by (simp add: invitation_update_def)

section \<open>Membership and role resolution\<close>

text \<open>
  C3. \<open>checkProjectAccess\<close> follows the five steps of the resolution algorithm, for
  every user, project and tenant id: an explicit membership row for
  \<open>(projectId, userId, tenantId)\<close> decides, with the role of that row; without one, a
  missing project denies access; a project of another tenant is the hard
  tenant-mismatch error, not a denial; a project whose creator is the user grants
  Owner although no membership row exists; anything else denies access.
\<close>

theorem checkProjectAccess_algorithm:
  "(memberRows db projectId userId tenantId = m # ms \<longrightarrow>
      checkProjectAccess db userId projectId tenantId =
        Inr \<lparr>hasAccess = True, role = Some (pm_role m)\<rparr>) \<and>
   (memberRows db projectId userId tenantId = [] \<and> projectRows db projectId = [] \<longrightarrow>
      checkProjectAccess db userId projectId tenantId =
        Inr \<lparr>hasAccess = False, role = None\<rparr>) \<and>
   (memberRows db projectId userId tenantId = [] \<and> projectRows db projectId = p # ps \<and>
      pj_tenantId p \<noteq> tenantId \<longrightarrow>
      checkProjectAccess db userId projectId tenantId = Inl TenantMismatchError) \<and>
   (memberRows db projectId userId tenantId = [] \<and> projectRows db projectId = p # ps \<and>
      pj_tenantId p = tenantId \<and> pj_createdBy p = Some userId \<longrightarrow>
      checkProjectAccess db userId projectId tenantId =
        Inr \<lparr>hasAccess = True, role = Some OWNER\<rparr>) \<and>
   (memberRows db projectId userId tenantId = [] \<and> projectRows db projectId = p # ps \<and>
      pj_tenantId p = tenantId \<and> pj_createdBy p \<noteq> Some userId \<longrightarrow>
      checkProjectAccess db userId projectId tenantId =
        Inr \<lparr>hasAccess = False, role = None\<rparr>)"
proof -
  have member: "findMembership db projectId userId tenantId = Some m"
    if "memberRows db projectId userId tenantId = m # ms"
    using that unfolding memberRows_def findMembership_def by (rule find_filter_Cons)
  have no_member: "findMembership db projectId userId tenantId = None"
    if "memberRows db projectId userId tenantId = []"
    using that unfolding memberRows_def findMembership_def by (rule find_filter_Nil)
  have project: "findProject db projectId = Some p" if "projectRows db projectId = p # ps"
    using that unfolding projectRows_def findProject_def by (rule find_filter_Cons)
  have no_project: "findProject db projectId = None" if "projectRows db projectId = []"
    using that unfolding projectRows_def findProject_def by (rule find_filter_Nil)
  show ?thesis
    by (auto simp: checkProjectAccess_def ensureTenantAccess_def
        member no_member project no_project)
qed

theorem checkProjectAccess_algorithm_witness:
  "memberRows demo apolloId ''u4'' ''T1'' =
     [\<lparr>pm_tenantId = ''T1'', pm_projectId = apolloId, pm_userId = ''u4'', pm_role = ADMIN\<rparr>] \<and>
   checkProjectAccess demo ''u4'' apolloId ''T1'' = Inr \<lparr>hasAccess = True, role = Some ADMIN\<rparr> \<and>
   memberRows demo ''p0'' ''u2'' ''T1'' = [] \<and> projectRows demo ''p0'' = [] \<and>
   checkProjectAccess demo ''u2'' ''p0'' ''T1'' = Inr \<lparr>hasAccess = False, role = None\<rparr> \<and>
   memberRows demo zephyrId ''u2'' ''T1'' = [] \<and> projectRows demo zephyrId = [zephyr] \<and>
   pj_tenantId zephyr \<noteq> ''T1'' \<and>
   checkProjectAccess demo ''u2'' zephyrId ''T1'' = Inl TenantMismatchError \<and>
   memberRows demo borealisId ''u2'' ''T1'' = [] \<and>
   map pj_createdBy (projectRows demo borealisId) = [Some ''u2''] \<and>
   checkProjectAccess demo ''u2'' borealisId ''T1'' = Inr \<lparr>hasAccess = True, role = Some OWNER\<rparr> \<and>
   memberRows demo apolloId ''u2'' ''T1'' = [] \<and> projectRows demo apolloId = [apollo] \<and>
   pj_createdBy apollo \<noteq> Some ''u2'' \<and>
   checkProjectAccess demo ''u2'' apolloId ''T1'' = Inr \<lparr>hasAccess = False, role = None\<rparr>"
  using checkProjectAccess_algorithm [of demo "apolloId" "''u4''" "''T1''"
      "\<lparr>pm_tenantId = ''T1'', pm_projectId = apolloId, pm_userId = ''u4'', pm_role = ADMIN\<rparr>" "[]"]
    checkProjectAccess_algorithm [of demo "''p0''" "''u2''" "''T1''"]
    checkProjectAccess_algorithm [of demo "zephyrId" "''u2''" "''T1''" _ _ zephyr "[]"]
    checkProjectAccess_algorithm [of demo "borealisId" "''u2''" "''T1''" _ _
      "\<lparr>pj_id = borealisId, pj_tenantId = ''T1'', pj_name = ''Borealis'',
        pj_code = Some ''QRS456'', pj_createdBy = Some ''u2''\<rparr>" "[]"]
    checkProjectAccess_algorithm [of demo "apolloId" "''u2''" "''T1''" _ _ apollo "[]"]
  by (simp add: memberRows_def projectRows_def demo_defs)

section \<open>Project deletion\<close>

text \<open>
  C2, as amended. Project deletion is permitted only when the caller's resolved role is
  Owner or Admin. For a project of the caller's tenant, a caller whose resolved role is
  Owner or Admin deletes it, and a caller whose resolved role is Member, Viewer or
  absent gets the forbidden answer (status 403) and the store is unchanged. Whenever
  the deletion succeeds the resolved role was Owner or Admin, and whenever it fails
  nothing is deleted.
\<close>

theorem deleteProject_owner_or_admin:
  "(findProject db pid = Some project \<and> pj_tenantId project = pr_tenantId user \<and>
    checkProjectAccess db (pr_userId user) pid (pr_tenantId user) = Inr a \<longrightarrow>
      deleteProject db user pid =
        (if role a = Some OWNER \<or> role a = Some ADMIN
         then (project_delete db pid, Inr ''Project deleted successfully'')
         else (db, Inl (Http 403 ''Only owners and admins can delete projects'')))) \<and>
   (deleteProject db user pid = (db', Inr done) \<longrightarrow>
      (\<exists>r. checkProjectAccess db (pr_userId user) pid (pr_tenantId user) =
             Inr \<lparr>hasAccess = True, role = Some r\<rparr> \<and> (r = OWNER \<or> r = ADMIN))) \<and>
   (deleteProject db user pid = (db', Inl failed) \<longrightarrow> db' = db)"
proof (intro conjI impI)
  assume h: "findProject db pid = Some project \<and> pj_tenantId project = pr_tenantId user \<and>
    checkProjectAccess db (pr_userId user) pid (pr_tenantId user) = Inr a"
  then have pid: "pj_id project = pid"
    by (auto dest: findProject_id)
  from h have acc: "hasAccess a = (role a \<noteq> None)"
    by (auto dest: checkProjectAccess_role)
  from h acc show "deleteProject db user pid =
        (if role a = Some OWNER \<or> role a = Some ADMIN
         then (project_delete db pid, Inr ''Project deleted successfully'')
         else (db, Inl (Http 403 ''Only owners and admins can delete projects'')))"
    by (auto simp: deleteProject_def pid ensureTenantAccess_def canAdmin_def)
next
  assume ok: "deleteProject db user pid = (db', Inr done)"
  then obtain project where p: "findProject db pid = Some project"
    by (auto simp: deleteProject_def split: option.splits)
  then have pid: "pj_id project = pid"
    by (rule findProject_id)
  from ok p obtain a
    where a: "checkProjectAccess db (pr_userId user) pid (pr_tenantId user) = Inr a"
      and granted: "hasAccess a" "canAdmin (role a)"
    by (auto simp: deleteProject_def pid split: sum.splits if_splits)
  then show "\<exists>r. checkProjectAccess db (pr_userId user) pid (pr_tenantId user) =
             Inr \<lparr>hasAccess = True, role = Some r\<rparr> \<and> (r = OWNER \<or> r = ADMIN)"
    by (cases a) (auto simp: canAdmin_def)
next
  assume "deleteProject db user pid = (db', Inl failed)"
  then show "db' = db"
    by (auto simp: deleteProject_def split: option.splits sum.splits if_splits)
qed

text \<open>
  In the example store Frank, a Member of Apollo, is refused and Alice, its Owner,
  deletes it.
\<close>

theorem deleteProject_owner_or_admin_witness:
  "findProject demo apolloId = Some apollo \<and> pj_tenantId apollo = pr_tenantId frank \<and>
   checkProjectAccess demo (pr_userId frank) apolloId (pr_tenantId frank) =
     Inr \<lparr>hasAccess = True, role = Some MEMBER\<rparr> \<and>
   deleteProject demo frank apolloId =
     (demo, Inl (Http 403 ''Only owners and admins can delete projects'')) \<and>
   pj_tenantId apollo = pr_tenantId alice \<and>
   checkProjectAccess demo (pr_userId alice) apolloId (pr_tenantId alice) =
     Inr \<lparr>hasAccess = True, role = Some OWNER\<rparr> \<and>
   deleteProject demo alice apolloId =
     (project_delete demo apolloId, Inr ''Project deleted successfully'')"
proof -
  have facts: "findProject demo apolloId = Some apollo" "pj_tenantId apollo = ''T1''"
    "pr_tenantId frank = ''T1''" "pr_tenantId alice = ''T1''"
    "pr_userId frank = ''u6''" "pr_userId alice = ''u1''"
    "checkProjectAccess demo ''u6'' apolloId ''T1'' = Inr \<lparr>hasAccess = True, role = Some MEMBER\<rparr>"
    "checkProjectAccess demo ''u1'' apolloId ''T1'' = Inr \<lparr>hasAccess = True, role = Some OWNER\<rparr>"
    by (simp_all add: access_defs demo_defs alice_def frank_def)
  show ?thesis
    using deleteProject_owner_or_admin [of demo "apolloId" apollo frank
        "\<lparr>hasAccess = True, role = Some MEMBER\<rparr>" "demo" "''x''" "Http 403 ''x''"]
      deleteProject_owner_or_admin [of demo "apolloId" apollo alice
        "\<lparr>hasAccess = True, role = Some OWNER\<rparr>" "demo" "''x''" "Http 403 ''x''"]
    by (simp add: facts)
qed

text \<open>
  The claim as stated fails for an Admin: Dave holds the Admin row on Apollo, and his
  request deletes the project.
\<close>

theorem deleteProject_owner_only_counterexample:
  "checkProjectAccess demo (pr_userId dave) apolloId (pr_tenantId dave) =
     Inr \<lparr>hasAccess = True, role = Some ADMIN\<rparr> \<and>
   snd (deleteProject demo dave apolloId) = Inr ''Project deleted successfully'' \<and>
   findProject (fst (deleteProject demo dave apolloId)) apolloId = None"
  by (simp add: deleteProject_def project_delete_def access_defs demo_defs dave_def)

section \<open>Tenant isolation\<close>















text \<open>
  Every route keeps a consistent store consistent. The routes that create membership
  rows are the creation of a project, the acceptance of an invitation and the
  acceptance of a join request; invitations and join requests get their tenant id
  from a principal whose tenant the handler has compared with the one of the project.
\<close>

lemma tenantConsistent_frame:
  assumes "users db' = users db" and "projects db' = projects db"
    and "projectMembers db' = projectMembers db" and "invitations db' = invitations db"
    and "joinRequests db' = joinRequests db"
  shows "tenantConsistent db' = tenantConsistent db"
  by (simp add: tenantConsistent_def userTenant_def projectTenant_def findProject_def assms
      cong: option.case_cong)

lemma list_all_map_same: "(\<And>x. P (f x) = P x) \<Longrightarrow> list_all P (map f xs) = list_all P xs"
  by (induction xs) auto

lemma tenantConsistent_invitation_update [simp]:
  "tenantConsistent (invitation_update db iid s) = tenantConsistent db"
  by (simp add: tenantConsistent_def invitation_update_def userTenant_def projectTenant_def
      findProject_def list_all_map_same cong: option.case_cong)

lemma tenantConsistent_joinRequest_update [simp]:
  "tenantConsistent (joinRequest_update db rid s) = tenantConsistent db"
  by (simp add: tenantConsistent_def joinRequest_update_def userTenant_def projectTenant_def
      findProject_def list_all_map_same cong: option.case_cong)

lemma tenantConsistent_activityLog_create [simp]:
  "tenantConsistent (activityLog_create db a) = tenantConsistent db"
  by (rule tenantConsistent_frame) (simp_all add: activityLog_create_def)









lemma tenants_joinRequest_update [simp]:
  "projectTenant (joinRequest_update db rid s) = projectTenant db"
  "userTenant (joinRequest_update db rid s) = userTenant db"
  by (simp_all add: fun_eq_iff projectTenant_def userTenant_def findProject_def
      joinRequest_update_def)



















section \<open>Invitations: expiry\<close>

lemma invitations_invitation_update:
  "invitations (invitation_update db iid s) =
     map (\<lambda>i. if inv_id i = iid then i\<lparr>inv_status := s\<rparr> else i) (invitations db)"
  by (simp add: invitation_update_def)

lemma list_all_status_update:
  "list_all (\<lambda>i. inv_token i = token \<longrightarrow> inv_expiresAt i < t)
     (map (\<lambda>i. if inv_id i = iid then i\<lparr>inv_status := s\<rparr> else i) xs) =
   list_all (\<lambda>i. inv_token i = token \<longrightarrow> inv_expiresAt i < t) xs"
  by (induction xs) simp_all

lemma expiredBefore_invitation_update [simp]:
  "expiredBefore t token (invitation_update db iid s) = expiredBefore t token db"
  by (simp add: expiredBefore_def invitations_invitation_update list_all_status_update)

lemma consumed_not_pending:
  assumes "distinct (map inv_token (invitations db))"
    and "findPendingInvitation db token = Some i" and "s \<noteq> PENDING"
  shows "findPendingInvitation (invitation_update db (inv_id i) s) token = None"
proof -
  from assms(2) have i: "i \<in> set (invitations db)" "inv_token i = token"
    by (auto dest: findPendingInvitation_Some)
  have "j = i" if "j \<in> set (invitations db)" "inv_token j = token" for j
    using assms(1) i that by (auto simp: distinct_map dest: inj_onD)
  then show ?thesis
    using assms(3)
    by (auto simp: findPendingInvitation_def find_None_iff invitations_invitation_update)
qed

lemma invitationCall_expired:
  assumes "expiredBefore t token db" and "t \<le> e_now env"
  shows "(snd (invitationCall env db token c) = Some (Http 410 ''Invitation has expired'') \<or>
          snd (invitationCall env db token c) = Some (Http 404 ''Invitation not found'')) \<and>
         expiredBefore t token (fst (invitationCall env db token c)) \<and>
         projectMembers (fst (invitationCall env db token c)) = projectMembers db"
proof (cases "findPendingInvitation db token")
  case None
  then show ?thesis
    using assms(1)
    by (cases c) (simp_all add: invitationCall_def getInvitation_def acceptInvitation_def)
next
  case (Some i)
  then have "inv_expiresAt i < t"
    using assms(1) by (auto simp: expiredBefore_def list_all_iff dest: findPendingInvitation_Some)
  then have "e_now env > inv_expiresAt i"
    using assms(2) by simp
  then show ?thesis
    using Some assms(1)
    by (cases c) (simp_all add: invitationCall_def getInvitation_def acceptInvitation_def)
qed

lemma invitationCalls_expired:
  assumes "expiredBefore t token db" and "list_all (\<lambda>(env, c). t \<le> e_now env) calls"
  shows "list_all (\<lambda>r. r = Some (Http 410 ''Invitation has expired'') \<or>
                       r = Some (Http 404 ''Invitation not found''))
           (snd (invitationCalls db token calls)) \<and>
         projectMembers (fst (invitationCalls db token calls)) = projectMembers db"
  using assms
proof (induction calls arbitrary: db)
  case Nil
  then show ?case by simp
next
  case (Cons a calls)
  obtain env c where a: "a = (env, c)" by (cases a)
  from Cons.prems a have now: "t \<le> e_now env" and rest: "list_all (\<lambda>(env, c). t \<le> e_now env) calls"
    by simp_all
  note step = invitationCall_expired [OF Cons.prems(1) now, of c]
  from step have "expiredBefore t token (fst (invitationCall env db token c))"
    by simp
  from Cons.IH [OF this rest] step show ?case
    by (auto simp: a split: prod.splits)
qed

lemma list_all_updated_status:
  "list_all (\<lambda>i. inv_id i = iid \<longrightarrow> inv_status i = s)
     (map (\<lambda>i. if inv_id i = iid then i\<lparr>inv_status := s\<rparr> else i) xs)"
  by (induction xs) simp_all

text \<open>
  C8. An invitation whose \<open>expiresAt\<close> is in the past is never returned as pending by
  the lookup by token nor consumed by the acceptance. Called after the expiry instant
  on an invitation that is still pending, either operation sets its status to expired
  and answers Gone (status 410) instead of the invitation, and no membership is
  created. Whatever the lookup returns is pending and not past its expiry, and an
  acceptance that succeeds has consumed an invitation that is not past its expiry.
  However many lookups and acceptances follow one another on a token whose invitations
  have all expired, each of them answers Gone or, once the status is expired, Not
  Found; none returns the invitation or creates a membership.
\<close>

theorem expired_invitation_is_gone:
  "(findPendingInvitation db token = Some invitation \<and> e_now env > inv_expiresAt invitation \<longrightarrow>
      getInvitation env db token =
        (invitation_update db (inv_id invitation) EXPIRED,
         Inl (Http 410 ''Invitation has expired'')) \<and>
      acceptInvitation env db user token =
        (invitation_update db (inv_id invitation) EXPIRED,
         Inl (Http 410 ''Invitation has expired'')) \<and>
      list_all (\<lambda>i. inv_id i = inv_id invitation \<longrightarrow> inv_status i = EXPIRED)
        (invitations (invitation_update db (inv_id invitation) EXPIRED)) \<and>
      projectMembers (invitation_update db (inv_id invitation) EXPIRED) = projectMembers db) \<and>
   (getInvitation env db token = (db', Inr returned) \<longrightarrow>
      inv_status returned = PENDING \<and> \<not> e_now env > inv_expiresAt returned) \<and>
   (acceptInvitation env db user token = (db', Inr done) \<longrightarrow>
      (\<exists>consumed. findPendingInvitation db token = Some consumed \<and>
         \<not> e_now env > inv_expiresAt consumed)) \<and>
   (expiredBefore t token db \<and> list_all (\<lambda>(env, c). t \<le> e_now env) calls \<longrightarrow>
      list_all (\<lambda>r. r = Some (Http 410 ''Invitation has expired'') \<or>
                    r = Some (Http 404 ''Invitation not found''))
        (snd (invitationCalls db token calls)) \<and>
      projectMembers (fst (invitationCalls db token calls)) = projectMembers db)"
proof (intro conjI impI)
  assume "getInvitation env db token = (db', Inr returned)"
  then show "inv_status returned = PENDING" and "\<not> e_now env > inv_expiresAt returned"
    by (auto simp: getInvitation_def split: option.splits if_splits
        dest: findPendingInvitation_Some)
next
  assume "acceptInvitation env db user token = (db', Inr done)"
  then show "\<exists>consumed. findPendingInvitation db token = Some consumed \<and>
         \<not> e_now env > inv_expiresAt consumed"
    by (auto simp: acceptInvitation_def split: option.splits if_splits)
next
  assume "expiredBefore t token db \<and> list_all (\<lambda>(env, c). t \<le> e_now env) calls"
  then have expired: "expiredBefore t token db"
    and later: "list_all (\<lambda>(env, c). t \<le> e_now env) calls"
    by simp_all
  note all = invitationCalls_expired [OF expired later]
  from all show "list_all (\<lambda>r. r = Some (Http 410 ''Invitation has expired'') \<or>
                    r = Some (Http 404 ''Invitation not found''))
        (snd (invitationCalls db token calls))"
    by simp
  from all show "projectMembers (fst (invitationCalls db token calls)) = projectMembers db"
    by simp
qed (simp_all add: getInvitation_def acceptInvitation_def invitations_invitation_update
    list_all_updated_status)

theorem expired_invitation_is_gone_witness:
  "findPendingInvitation demo ''tok8'' = Some invite8 \<and>
   e_now env500 > inv_expiresAt invite8 \<and>
   getInvitation env500 demo ''tok8'' =
     (invitation_update demo ''i8'' EXPIRED, Inl (Http 410 ''Invitation has expired'')) \<and>
   acceptInvitation env500 demo gina ''tok8'' =
     (invitation_update demo ''i8'' EXPIRED, Inl (Http 410 ''Invitation has expired'')) \<and>
   map inv_status (filter (\<lambda>i. inv_id i = ''i8'')
     (invitations (invitation_update demo ''i8'' EXPIRED))) = [EXPIRED] \<and>
   expiredBefore 500 ''tok8'' demo \<and>
   snd (invitationCalls demo ''tok8''
          [(env500, Lookup), (env500, Accept gina), (env500, Lookup)]) =
     [Some (Http 410 ''Invitation has expired''), Some (Http 404 ''Invitation not found''),
      Some (Http 404 ''Invitation not found'')] \<and>
   projectMembers (fst (invitationCalls demo ''tok8''
          [(env500, Lookup), (env500, Accept gina), (env500, Lookup)])) = projectMembers demo"
proof -
  have found: "findPendingInvitation demo ''tok8'' = Some invite8"
    "e_now env500 = 500" "inv_expiresAt invite8 = 100" "inv_id invite8 = ''i8''"
    by (simp_all add: findPendingInvitation_def demo_defs gina_def env500_def)
  have expired: "expiredBefore 500 ''tok8'' demo"
    by (simp add: expiredBefore_def demo_defs gina_def env500_def)
  have status: "map inv_status (filter (\<lambda>i. inv_id i = ''i8'')
     (invitations (invitation_update demo ''i8'' EXPIRED))) = [EXPIRED]"
    by (simp add: invitation_update_def demo_defs gina_def env500_def)
  have calls: "snd (invitationCalls demo ''tok8''
          [(env500, Lookup), (env500, Accept gina), (env500, Lookup)]) =
     [Some (Http 410 ''Invitation has expired''), Some (Http 404 ''Invitation not found''),
      Some (Http 404 ''Invitation not found'')]"
    by (simp add: invitationCall_def getInvitation_def acceptInvitation_def
        findPendingInvitation_def invitation_update_def demo_defs gina_def env500_def)
  show ?thesis
    using expired_invitation_is_gone [of demo "''tok8''" invite8 env500 gina demo invite8
        "''x''" 500 "[(env500, Lookup), (env500, Accept gina), (env500, Lookup)]"]
    by (simp add: found expired status calls del: invitationCalls.simps)
qed

section \<open>Invitations: acceptance\<close>

lemma findPendingInvitation_cong:
  "invitations db1 = invitations db2 \<Longrightarrow>
     findPendingInvitation db1 token = findPendingInvitation db2 token"
  by (simp add: findPendingInvitation_def)

lemma acceptInvitation_consumes:
  assumes "acceptInvitation env db user token = (db1, first)"
    and "first = Inr ''Invitation accepted successfully'' \<or>
         first = Inl (Http 409 ''Already a member of this project'')"
  shows "\<exists>i. findPendingInvitation db token = Some i \<and>
             invitations db1 = invitations (invitation_update db (inv_id i) ACCEPTED)"
  using assms
  by (auto simp: acceptInvitation_def Let_def invitation_update_def projectMember_create_def
      activityLog_create_def split: option.splits if_splits sum.splits)

lemma acceptInvitation_second_not_found:
  assumes "distinct (map inv_token (invitations db))"
    and "acceptInvitation env db user token = (db1, first)"
    and "first = Inr ''Invitation accepted successfully'' \<or>
         first = Inl (Http 409 ''Already a member of this project'')"
  shows "acceptInvitation env' db1 user' token = (db1, Inl (Http 404 ''Invitation not found''))"
proof -
  from acceptInvitation_consumes [OF assms(2,3)] obtain i
    where i: "findPendingInvitation db token = Some i"
      and db1: "invitations db1 = invitations (invitation_update db (inv_id i) ACCEPTED)"
    by blast
  have "findPendingInvitation (invitation_update db (inv_id i) ACCEPTED) token = None"
    using assms(1) i by (rule consumed_not_pending) simp
  then have "findPendingInvitation db1 token = None"
    using findPendingInvitation_cong [OF db1] by simp
  then show ?thesis
    by (simp add: acceptInvitation_def)
qed

lemma acceptInvitation_keys_distinct:
  assumes "distinct (map memberKey (projectMembers db))"
  shows "distinct (map memberKey (projectMembers (fst (acceptInvitation env db user token))))"
  using assms
  by (auto simp: acceptInvitation_def Let_def projectMember_create_def activityLog_create_def
      invitation_update_def memberKey_def find_None_iff split: option.splits sum.splits)

text \<open>
  C4, as amended. Accepting an invitation token twice never creates two membership rows
  for the same project and user: membership rows that are unique on (project, user)
  stay so through both acceptances. Tokens being unique, once an acceptance has
  consumed the invitation, by succeeding or by reporting Conflict because the user was
  a member already, a second acceptance of the same token, by whomever and whenever,
  answers Not Found (status 404) and changes nothing.
\<close>

theorem invitation_accepted_at_most_once:
  "(distinct (map inv_token (invitations db)) \<and>
    acceptInvitation env db user token = (db1, first) \<and>
    (first = Inr ''Invitation accepted successfully'' \<or>
     first = Inl (Http 409 ''Already a member of this project'')) \<longrightarrow>
      acceptInvitation env' db1 user' token =
        (db1, Inl (Http 404 ''Invitation not found''))) \<and>
   (distinct (map memberKey (projectMembers db)) \<longrightarrow>
      distinct (map memberKey (projectMembers
        (fst (acceptInvitation env' (fst (acceptInvitation env db user token)) user' token)))))"
  using acceptInvitation_second_not_found [of db env user token db1 first env' user']
    acceptInvitation_keys_distinct [of db env user token]
    acceptInvitation_keys_distinct [of "fst (acceptInvitation env db user token)" env' user' token]
  by (intro conjI impI; simp)

lemma afterBob_eq:
  "afterBob =
     demo\<lparr>projectMembers := demoMembers @
             [\<lparr>pm_tenantId = ''T1'', pm_projectId = apolloId, pm_userId = ''u2'', pm_role = VIEWER\<rparr>],
          invitations := invite1\<lparr>inv_status := ACCEPTED\<rparr> # tl demoInvitations,
          activityLogs :=
             [\<lparr>al_tenantId = ''T1'', al_projectId = apolloId, al_userId = ''u2'', al_action = ''joined'',
               al_entityType = ''project'', al_entityId = apolloId, al_entityName = None\<rparr>]\<rparr>"
  by (simp add: afterBob_def acceptInvitation_def findPendingInvitation_def
      ensureTenantAccess_def projectMember_create_def invitation_update_def
      activityLog_create_def demo_defs bob_def env500_def)

theorem invitation_accepted_at_most_once_witness:
  "distinct (map inv_token (invitations demo)) \<and>
   acceptInvitation env500 demo bob ''tok1'' = (afterBob, Inr ''Invitation accepted successfully'') \<and>
   acceptInvitation env500 afterBob bob ''tok1'' =
     (afterBob, Inl (Http 404 ''Invitation not found'')) \<and>
   distinct (map memberKey (projectMembers demo)) \<and>
   distinct (map memberKey (projectMembers
     (fst (acceptInvitation env500 (fst (acceptInvitation env500 demo bob ''tok1'')) bob ''tok1''))))"
proof -
  have tokens: "distinct (map inv_token (invitations demo))"
    by (simp add: demo_defs bob_def env500_def)
  have keys: "distinct (map memberKey (projectMembers demo))"
    by (simp add: memberKey_def demo_defs bob_def env500_def)
  have first: "acceptInvitation env500 demo bob ''tok1'' =
      (afterBob, Inr ''Invitation accepted successfully'')"
    by (simp add: afterBob_def acceptInvitation_def findPendingInvitation_def
        ensureTenantAccess_def demo_defs bob_def env500_def)
  show ?thesis
    using invitation_accepted_at_most_once [of demo env500 bob "''tok1''" afterBob
        "Inr ''Invitation accepted successfully''" env500 bob]
    by (auto simp add: tokens keys first)
qed

text \<open>
  The claim as stated fails on the answer of the second acceptance: Bob accepts his
  invitation, and his second acceptance of the same token answers Not Found, not
  Conflict.
\<close>

theorem second_acceptance_not_conflict_counterexample:
  "snd (acceptInvitation env500 demo bob ''tok1'') = Inr ''Invitation accepted successfully'' \<and>
   snd (acceptInvitation env500 (fst (acceptInvitation env500 demo bob ''tok1'')) bob ''tok1'') =
     Inl (Http 404 ''Invitation not found'')"
proof -
  have "acceptInvitation env500 afterBob bob ''tok1'' =
      (afterBob, Inl (Http 404 ''Invitation not found''))"
    by (simp add: afterBob_eq acceptInvitation_def findPendingInvitation_def
        demo_defs bob_def env500_def)
  moreover have "snd (acceptInvitation env500 demo bob ''tok1'') =
      Inr ''Invitation accepted successfully''"
    by (simp add: acceptInvitation_def findPendingInvitation_def ensureTenantAccess_def
        demo_defs bob_def env500_def)
  ultimately show ?thesis
    by (simp add: afterBob_def)
qed

lemma sameIgnoringCase_refl: "sameIgnoringCase a a"
  by (simp add: sameIgnoringCase_def)

text \<open>
  C5, as amended. On a pending invitation that has not expired, a principal whose
  account email is identical to the invitation's target email passes the email check,
  and is accepted with a membership at the invitation's role when the tenants match
  and the user is not yet a member. A principal with no account row, or whose account
  email differs from the target email even when letter case is ignored, fails with
  status 403 and the fixed message \<open>Invitation email does not match your account\<close>;
  the store is unchanged, so no membership is created.
\<close>

theorem acceptInvitation_email_check:
  "(findPendingInvitation db token = Some invitation \<and>
    \<not> e_now env > inv_expiresAt invitation \<longrightarrow>
      (find (\<lambda>u. u_id u = pr_userId user) (users db) = Some account \<and>
       u_email account = inv_email invitation \<and>
       pr_tenantId user = inv_tenantId invitation \<and> u_profile account = Some profileId \<and>
       find (\<lambda>m. pm_projectId m = inv_projectId invitation \<and> pm_userId m = profileId)
         (projectMembers db) = None \<longrightarrow>
         snd (acceptInvitation env db user token) = Inr ''Invitation accepted successfully'' \<and>
         projectMembers (fst (acceptInvitation env db user token)) =
           projectMembers db @
             [\<lparr>pm_tenantId = inv_tenantId invitation, pm_projectId = inv_projectId invitation,
               pm_userId = profileId, pm_role = inv_role invitation\<rparr>]) \<and>
      (find (\<lambda>u. u_id u = pr_userId user) (users db) = Some account \<and>
       u_email account = inv_email invitation \<longrightarrow>
         snd (acceptInvitation env db user token) \<noteq>
           Inl (Http 403 ''Invitation email does not match your account'')) \<and>
      ((case find (\<lambda>u. u_id u = pr_userId user) (users db) of
          None \<Rightarrow> True
        | Some other \<Rightarrow> \<not> sameIgnoringCase (u_email other) (inv_email invitation)) \<longrightarrow>
         acceptInvitation env db user token =
           (db, Inl (Http 403 ''Invitation email does not match your account''))))"
proof (intro conjI impI)
  assume pending: "findPendingInvitation db token = Some invitation \<and>
    \<not> e_now env > inv_expiresAt invitation"
  {
    assume "find (\<lambda>u. u_id u = pr_userId user) (users db) = Some account \<and>
       u_email account = inv_email invitation \<and>
       pr_tenantId user = inv_tenantId invitation \<and> u_profile account = Some profileId \<and>
       find (\<lambda>m. pm_projectId m = inv_projectId invitation \<and> pm_userId m = profileId)
         (projectMembers db) = None"
    with pending show "snd (acceptInvitation env db user token) =
        Inr ''Invitation accepted successfully''"
      and "projectMembers (fst (acceptInvitation env db user token)) =
           projectMembers db @
             [\<lparr>pm_tenantId = inv_tenantId invitation, pm_projectId = inv_projectId invitation,
               pm_userId = profileId, pm_role = inv_role invitation\<rparr>]"
      by (simp_all add: acceptInvitation_def ensureTenantAccess_def projectMember_create_def
          invitation_update_def activityLog_create_def)
  }
  {
    assume "find (\<lambda>u. u_id u = pr_userId user) (users db) = Some account \<and>
       u_email account = inv_email invitation"
    with pending show "snd (acceptInvitation env db user token) \<noteq>
           Inl (Http 403 ''Invitation email does not match your account'')"
      by (auto simp: acceptInvitation_def Let_def split: sum.splits option.splits)
  }
  {
    assume "case find (\<lambda>u. u_id u = pr_userId user) (users db) of
          None \<Rightarrow> True
        | Some other \<Rightarrow> \<not> sameIgnoringCase (u_email other) (inv_email invitation)"
    with pending show "acceptInvitation env db user token =
           (db, Inl (Http 403 ''Invitation email does not match your account''))"
      by (auto simp: acceptInvitation_def sameIgnoringCase_refl split: option.splits)
  }
qed

theorem acceptInvitation_email_check_witness:
  "findPendingInvitation demo ''tok1'' = Some invite1 \<and> \<not> e_now env500 > inv_expiresAt invite1 \<and>
   map u_email (filter (\<lambda>u. u_id u = pr_userId bob) (users demo)) = [inv_email invite1] \<and>
   snd (acceptInvitation env500 demo bob ''tok1'') = Inr ''Invitation accepted successfully'' \<and>
   projectMembers (fst (acceptInvitation env500 demo bob ''tok1'')) =
     projectMembers demo @
       [\<lparr>pm_tenantId = ''T1'', pm_projectId = apolloId, pm_userId = ''u2'', pm_role = VIEWER\<rparr>] \<and>
   map u_email (filter (\<lambda>u. u_id u = pr_userId frank) (users demo)) = [''frank@x.com''] \<and>
   \<not> sameIgnoringCase ''frank@x.com'' (inv_email invite1) \<and>
   acceptInvitation env500 demo frank ''tok1'' =
     (demo, Inl (Http 403 ''Invitation email does not match your account''))"
proof -
  have pending: "findPendingInvitation demo ''tok1'' = Some invite1"
    "e_now env500 = 500" "inv_expiresAt invite1 = 1000" "inv_email invite1 = ''bob@x.com''"
    "inv_tenantId invite1 = ''T1''" "inv_projectId invite1 = apolloId" "inv_role invite1 = VIEWER"
    "pr_tenantId bob = ''T1''" "pr_userId bob = ''u2''" "pr_userId frank = ''u6''"
    by (simp_all add: findPendingInvitation_def demo_defs bob_def frank_def env500_def)
  have accounts:
    "find (\<lambda>u. u_id u = ''u2'') (users demo) =
       Some \<lparr>u_id = ''u2'', u_email = ''bob@x.com'', u_tenantId = ''T1'', u_profile = Some ''u2''\<rparr>"
    "find (\<lambda>u. u_id u = ''u6'') (users demo) =
       Some \<lparr>u_id = ''u6'', u_email = ''frank@x.com'', u_tenantId = ''T1'', u_profile = Some ''u6''\<rparr>"
    "map u_email (filter (\<lambda>u. u_id u = ''u2'') (users demo)) = [''bob@x.com'']"
    "map u_email (filter (\<lambda>u. u_id u = ''u6'') (users demo)) = [''frank@x.com'']"
    by (simp_all add: demo_defs bob_def frank_def env500_def)
  have fresh: "find (\<lambda>m. pm_projectId m = apolloId \<and> pm_userId m = ''u2'') (projectMembers demo) = None"
    by (simp add: demo_defs bob_def frank_def env500_def)
  have differs: "\<not> sameIgnoringCase ''frank@x.com'' ''bob@x.com''"
    by (simp add: case_defs)
  show ?thesis
    using acceptInvitation_email_check [of demo "''tok1''" invite1 env500 bob
        "\<lparr>u_id = ''u2'', u_email = ''bob@x.com'', u_tenantId = ''T1'', u_profile = Some ''u2''\<rparr>"
        "''u2''"]
      acceptInvitation_email_check [of demo "''tok1''" invite1 env500 frank
        "\<lparr>u_id = ''u6'', u_email = ''frank@x.com'', u_tenantId = ''T1'', u_profile = Some ''u6''\<rparr>"
        "''u6''"]
    by (simp add: pending accounts fresh differs)
qed

text \<open>
  The claim as stated fails twice. Erin's account email is \<open>Erin@x.com\<close> and her
  invitation targets \<open>erin@x.com\<close>: the two differ only in letter case, and she is
  refused. The message of the refusal is the same whatever the invitation: Frank gets
  it for the invitation to \<open>erin@x.com\<close> and for the one to \<open>bob@x.com\<close>, so it does
  not identify the required email.
\<close>

theorem acceptInvitation_case_sensitive_counterexample:
  "map u_email (filter (\<lambda>u. u_id u = pr_userId erin) (users demo)) = [''Erin@x.com''] \<and>
   map inv_email (filter (\<lambda>i. inv_token i = ''tok5'') (invitations demo)) = [''erin@x.com''] \<and>
   sameIgnoringCase ''Erin@x.com'' ''erin@x.com'' \<and>
   acceptInvitation env500 demo erin ''tok5'' =
     (demo, Inl (Http 403 ''Invitation email does not match your account'')) \<and>
   acceptInvitation env500 demo frank ''tok5'' =
     (demo, Inl (Http 403 ''Invitation email does not match your account'')) \<and>
   acceptInvitation env500 demo frank ''tok1'' =
     (demo, Inl (Http 403 ''Invitation email does not match your account''))"
  by (simp add: acceptInvitation_def findPendingInvitation_def case_defs
      demo_defs erin_def frank_def env500_def)

section \<open>Join requests\<close>

lemma find_status_update:
  "find (\<lambda>r. jr_id r = rid) xs = Some r \<Longrightarrow>
     find (\<lambda>r. jr_id r = rid) (map (\<lambda>r. if jr_id r = rid then r\<lparr>jr_status := s\<rparr> else r) xs) =
       Some (r\<lparr>jr_status := s\<rparr>)"
  by (induction xs) (auto split: if_splits)

lemma findJoinRequest_updated:
  "findJoinRequest db rid = Some r \<Longrightarrow>
     findJoinRequest (joinRequest_update db rid s) rid = Some (r\<lparr>jr_status := s\<rparr>)"
  by (simp add: findJoinRequest_def joinRequest_update_def find_status_update)

lemma findJoinRequest_cong:
  "joinRequests db1 = joinRequests db2 \<Longrightarrow> findJoinRequest db1 rid = findJoinRequest db2 rid"
  by (simp add: findJoinRequest_def)

lemma joinRequests_notification_create:
  "notification_create sink db n = Inr db' \<Longrightarrow> joinRequests db' = joinRequests db"
  by (auto simp: notification_create_def split: Outcome.splits)

lemma projectMembers_notification_create:
  "notification_create sink db n = Inr db' \<Longrightarrow> projectMembers db' = projectMembers db"
  by (auto simp: notification_create_def split: Outcome.splits)

lemma declineJoinRequest_status:
  assumes "findJoinRequest db rid = Some request"
    and "findAdminMembership db (jr_projectId request) (pr_userId user) = Some membership"
  shows "joinRequests (fst (declineJoinRequest env db user rid)) =
           joinRequests (joinRequest_update db rid DECLINED)"
    and "projectMembers (fst (declineJoinRequest env db user rid)) = projectMembers db"
  using assms
  by (auto simp: declineJoinRequest_def Let_def joinRequest_update_def
      split: option.splits sum.splits
      dest: joinRequests_notification_create projectMembers_notification_create)

lemma acceptJoinRequest_status:
  assumes "findJoinRequest db rid = Some request"
    and "findAdminMembership db (jr_projectId request) (pr_userId user) = Some membership"
    and "findProject db (jr_projectId request) = Some project"
    and "\<not> isMemberOf db (jr_projectId request) (jr_userId request)"
  shows "joinRequests (fst (acceptJoinRequest env db user rid)) =
           joinRequests (joinRequest_update db rid ACCEPTED)"
    and "projectMembers (fst (acceptJoinRequest env db user rid)) =
           projectMembers db @
             [\<lparr>pm_tenantId = jr_tenantId request, pm_projectId = jr_projectId request,
               pm_userId = jr_userId request, pm_role = MEMBER\<rparr>]"
  using assms findProject_id [OF assms(3)]
  by (auto simp: acceptJoinRequest_def Let_def joinRequest_update_def isMemberOf_def
      projectMember_create_def
      split: option.splits sum.splits
      dest: joinRequests_notification_create projectMembers_notification_create)

lemma acceptJoinRequest_already_member:
  assumes "findJoinRequest db rid = Some request"
    and "findAdminMembership db (jr_projectId request) (pr_userId user) = Some membership"
    and "findProject db (jr_projectId request) = Some project"
    and "isMemberOf db (jr_projectId request) (jr_userId request)"
  shows "acceptJoinRequest env db user rid = (db, Inl (Http 400 ''User is already a member''))"
  using assms findProject_id [OF assms(3)]
  by (simp add: acceptJoinRequest_def isMemberOf_def)

lemma acceptJoinRequest_not_permitted:
  assumes "findJoinRequest db rid = Some request"
    and "findAdminMembership db (jr_projectId request) (pr_userId user) = None"
  shows "acceptJoinRequest env db user rid =
           (db, Inl (Http 403 ''You do not have permission to accept join requests''))"
  using assms by (simp add: acceptJoinRequest_def)

text \<open>
  C6, as amended. For every accept-join-request call where the requester already holds
  a membership row for the project of the request, the store stays as it was: the
  status of the join request does not change and no membership is created. A caller
  holding an Owner or Admin row on the project (which is in the store) gets status 400
  with the message \<open>User is already a member\<close>; a caller holding no such row gets
  status 403, the permission check coming first.
\<close>

theorem acceptJoinRequest_requester_already_member:
  "(findJoinRequest db rid = Some request \<and>
    findAdminMembership db (jr_projectId request) (pr_userId user) = Some membership \<and>
    findProject db (jr_projectId request) = Some project \<and>
    isMemberOf db (jr_projectId request) (jr_userId request) \<longrightarrow>
      acceptJoinRequest env db user rid = (db, Inl (Http 400 ''User is already a member''))) \<and>
   (findJoinRequest db rid = Some request \<and>
    findAdminMembership db (jr_projectId request) (pr_userId user) = None \<and>
    isMemberOf db (jr_projectId request) (jr_userId request) \<longrightarrow>
      acceptJoinRequest env db user rid =
        (db, Inl (Http 403 ''You do not have permission to accept join requests'')))"
  using acceptJoinRequest_already_member [of db rid request user membership project env]
    acceptJoinRequest_not_permitted [of db rid request user env]
  by (intro conjI impI; simp)

lemma demo_requests:
  "findJoinRequest demo ''r6'' = Some request6"
  "findJoinRequest demo ''r7'' = Some request7"
  "findJoinRequest demo ''r9'' = Some request9"
  "findAdminMembership demo apolloId ''u1'' = Some ownerRow"
  "findProject demo apolloId = Some apollo"
  "isMemberOf demo apolloId ''u6''" "\<not> isMemberOf demo apolloId ''u2''" "\<not> isMemberOf demo apolloId ''u7''"
  "pr_userId alice = ''u1''"
  "jr_projectId request6 = apolloId" "jr_userId request6 = ''u6''"
  "jr_projectId request7 = apolloId" "jr_userId request7 = ''u2''" "jr_tenantId request7 = ''T1''"
  "jr_status request7 = DECLINED"
  "jr_projectId request9 = apolloId" "jr_userId request9 = ''u7''" "jr_tenantId request9 = ''T1''"
  by (simp_all add: findJoinRequest_def findAdminMembership_def findProject_def isMemberOf_def
      membersOf_def demo_defs alice_def)

theorem acceptJoinRequest_requester_already_member_witness:
  "findJoinRequest demo ''r6'' = Some request6 \<and>
   findAdminMembership demo (jr_projectId request6) (pr_userId alice) = Some ownerRow \<and>
   findProject demo (jr_projectId request6) = Some apollo \<and>
   isMemberOf demo (jr_projectId request6) (jr_userId request6) \<and>
   acceptJoinRequest env500 demo alice ''r6'' =
     (demo, Inl (Http 400 ''User is already a member'')) \<and>
   findAdminMembership demo (jr_projectId request6) (pr_userId bob) = None \<and>
   acceptJoinRequest env500 demo bob ''r6'' =
     (demo, Inl (Http 403 ''You do not have permission to accept join requests''))"
proof -
  have outsider: "findAdminMembership demo apolloId (pr_userId bob) = None"
    by (simp add: findAdminMembership_def demo_defs bob_def)
  show ?thesis
    using acceptJoinRequest_requester_already_member
        [of demo "''r6''" request6 alice ownerRow apollo env500]
      acceptJoinRequest_requester_already_member
        [of demo "''r6''" request6 bob ownerRow apollo env500]
    by (simp add: demo_requests outsider)
qed

text \<open>
  The claim as stated fails on the answer and on the transition: Frank is a member of
  Apollo and his request is pending; Alice's acceptance answers status 400, not
  Conflict, and the request is still pending afterwards.
\<close>

theorem acceptJoinRequest_member_counterexample:
  "isMemberOf demo apolloId ''u6'' \<and>
   snd (acceptJoinRequest env500 demo alice ''r6'') = Inl (Http 400 ''User is already a member'') \<and>
   map_option jr_status (findJoinRequest (fst (acceptJoinRequest env500 demo alice ''r6'')) ''r6'') =
     Some PENDING"
  by (simp add: acceptJoinRequest_def findJoinRequest_def findAdminMembership_def
      findProject_def isMemberOf_def membersOf_def demo_defs alice_def env500_def)

text \<open>
  C7, as amended. Accept and decline do not look at the current status of the join
  request. For a caller holding an Owner or Admin row on its project, decline sets the
  status to declined whatever it was, and creates no membership; accept (the project
  of the request being in the store) sets the status
  to accepted whatever it was, and adds the Member row, unless the requester already
  holds a membership row on the project, in which case accept changes nothing.
\<close>

theorem join_request_resolution_ignores_status:
  "(findJoinRequest db rid = Some request \<and>
    findAdminMembership db (jr_projectId request) (pr_userId user) = Some membership \<longrightarrow>
      findJoinRequest (fst (declineJoinRequest env db user rid)) rid =
        Some (request\<lparr>jr_status := DECLINED\<rparr>) \<and>
      projectMembers (fst (declineJoinRequest env db user rid)) = projectMembers db) \<and>
   (findJoinRequest db rid = Some request \<and>
    findAdminMembership db (jr_projectId request) (pr_userId user) = Some membership \<and>
    findProject db (jr_projectId request) = Some project \<and>
    \<not> isMemberOf db (jr_projectId request) (jr_userId request) \<longrightarrow>
      findJoinRequest (fst (acceptJoinRequest env db user rid)) rid =
        Some (request\<lparr>jr_status := ACCEPTED\<rparr>) \<and>
      projectMembers (fst (acceptJoinRequest env db user rid)) =
        projectMembers db @
          [\<lparr>pm_tenantId = jr_tenantId request, pm_projectId = jr_projectId request,
            pm_userId = jr_userId request, pm_role = MEMBER\<rparr>]) \<and>
   (findJoinRequest db rid = Some request \<and>
    findAdminMembership db (jr_projectId request) (pr_userId user) = Some membership \<and>
    findProject db (jr_projectId request) = Some project \<and>
    isMemberOf db (jr_projectId request) (jr_userId request) \<longrightarrow>
      fst (acceptJoinRequest env db user rid) = db)"
proof (intro conjI impI)
  assume "findJoinRequest db rid = Some request \<and>
    findAdminMembership db (jr_projectId request) (pr_userId user) = Some membership"
  then have r: "findJoinRequest db rid = Some request"
    and m: "findAdminMembership db (jr_projectId request) (pr_userId user) = Some membership"
    by simp_all
  note declined = declineJoinRequest_status [OF r m, of env]
  show "findJoinRequest (fst (declineJoinRequest env db user rid)) rid =
        Some (request\<lparr>jr_status := DECLINED\<rparr>)"
    using findJoinRequest_cong [OF declined(1), of rid] findJoinRequest_updated [OF r]
    by simp
  show "projectMembers (fst (declineJoinRequest env db user rid)) = projectMembers db"
    by (rule declined(2))
next
  assume "findJoinRequest db rid = Some request \<and>
    findAdminMembership db (jr_projectId request) (pr_userId user) = Some membership \<and>
    findProject db (jr_projectId request) = Some project \<and>
    \<not> isMemberOf db (jr_projectId request) (jr_userId request)"
  then have r: "findJoinRequest db rid = Some request"
    and m: "findAdminMembership db (jr_projectId request) (pr_userId user) = Some membership"
    and p: "findProject db (jr_projectId request) = Some project"
    and n: "\<not> isMemberOf db (jr_projectId request) (jr_userId request)"
    by simp_all
  note accepted = acceptJoinRequest_status [OF r m p n, of env]
  show "findJoinRequest (fst (acceptJoinRequest env db user rid)) rid =
        Some (request\<lparr>jr_status := ACCEPTED\<rparr>)"
    using findJoinRequest_cong [OF accepted(1), of rid] findJoinRequest_updated [OF r]
    by simp
  show "projectMembers (fst (acceptJoinRequest env db user rid)) =
        projectMembers db @
          [\<lparr>pm_tenantId = jr_tenantId request, pm_projectId = jr_projectId request,
            pm_userId = jr_userId request, pm_role = MEMBER\<rparr>]"
    by (rule accepted(2))
next
  assume "findJoinRequest db rid = Some request \<and>
    findAdminMembership db (jr_projectId request) (pr_userId user) = Some membership \<and>
    findProject db (jr_projectId request) = Some project \<and>
    isMemberOf db (jr_projectId request) (jr_userId request)"
  then show "fst (acceptJoinRequest env db user rid) = db"
    by (simp add: acceptJoinRequest_already_member)
qed

theorem join_request_resolution_ignores_status_witness:
  "findJoinRequest demo ''r7'' = Some request7 \<and> jr_status request7 = DECLINED \<and>
   findAdminMembership demo (jr_projectId request7) (pr_userId alice) = Some ownerRow \<and>
   findProject demo (jr_projectId request7) = Some apollo \<and>
   \<not> isMemberOf demo (jr_projectId request7) (jr_userId request7) \<and>
   findJoinRequest (fst (acceptJoinRequest env500 demo alice ''r7'')) ''r7'' =
     Some (request7\<lparr>jr_status := ACCEPTED\<rparr>) \<and>
   projectMembers (fst (acceptJoinRequest env500 demo alice ''r7'')) =
     projectMembers demo @
       [\<lparr>pm_tenantId = ''T1'', pm_projectId = apolloId, pm_userId = ''u2'', pm_role = MEMBER\<rparr>] \<and>
   findJoinRequest (fst (declineJoinRequest env500 demo alice ''r7'')) ''r7'' =
     Some (request7\<lparr>jr_status := DECLINED\<rparr>) \<and>
   findJoinRequest demo ''r6'' = Some request6 \<and>
   isMemberOf demo (jr_projectId request6) (jr_userId request6) \<and>
   fst (acceptJoinRequest env500 demo alice ''r6'') = demo"
  using join_request_resolution_ignores_status
      [of demo "''r7''" request7 alice ownerRow env500 apollo]
    join_request_resolution_ignores_status
      [of demo "''r6''" request6 alice ownerRow env500 apollo]
  by (simp add: demo_requests)

text \<open>
  The claim as stated fails: Bob's request for Apollo is declined; Alice's acceptance
  succeeds and the request is accepted, and her decline after that makes it declined
  again.
\<close>

theorem declined_request_accepted_counterexample:
  "map_option jr_status (findJoinRequest demo ''r7'') = Some DECLINED \<and>
   snd (acceptJoinRequest env500 demo alice ''r7'') = Inr ''Join request accepted'' \<and>
   map_option jr_status (findJoinRequest (fst (acceptJoinRequest env500 demo alice ''r7'')) ''r7'') =
     Some ACCEPTED \<and>
   snd (declineJoinRequest env500 (fst (acceptJoinRequest env500 demo alice ''r7'')) alice ''r7'') =
     Inr ''Join request declined'' \<and>
   map_option jr_status
     (findJoinRequest
        (fst (declineJoinRequest env500 (fst (acceptJoinRequest env500 demo alice ''r7'')) alice ''r7''))
        ''r7'') = Some DECLINED"
  by (simp add: acceptJoinRequest_def declineJoinRequest_def findJoinRequest_def
      findAdminMembership_def findProject_def membersOf_def joinRequest_update_def
      projectMember_create_def notification_create_def
      demo_defs alice_def env500_def)

section \<open>Failing side effects\<close>

lemma sendInvitationEmail_returns: "sendInvitationEmail transport = Inr ()"
  by (cases transport) (simp_all add: sendInvitationEmail_def)

lemma createJoinRequest_never_throws_sink:
  "snd (createJoinRequest env db user code message) \<noteq> Inl (Thrown SinkError)"
  by (auto simp: createJoinRequest_def notification_create_def Let_def
      split: option.splits Outcome.splits if_splits)

lemma createInvitation_never_throws_sink:
  "snd (createInvitation env db user pid email roleOpt) \<noteq> Inl (Thrown SinkError)"
  by (auto simp: createInvitation_def sendInvitationEmail_returns Let_def ensureTenantAccess_def
      checkProjectAccess_def
      split: option.splits sum.splits if_splits bool.splits)

text \<open>
  The two creation routes survive a failing collaborator: with the mail transport and
  the notification table both failing, Bob's join request for Apollo and Alice's
  invitation of a new address are created and answered.
\<close>

lemma creation_tolerates_sink_failure:
  "snd (createJoinRequest envSinkDown demo bob ''abc123'' None) =
     Inr \<lparr>jr_id = ''n1'', jr_tenantId = ''T1'', jr_projectId = apolloId, jr_userId = ''u2'',
          jr_message = None, jr_status = PENDING\<rparr> \<and>
   snd (createInvitation envSinkDown demo alice apolloId ''zoe@x.com'' None) =
     Inr \<lparr>inv_id = ''n1'', inv_tenantId = ''T1'', inv_projectId = apolloId, inv_email = ''zoe@x.com'',
          inv_role = MEMBER, inv_status = PENDING, inv_invitedBy = ''u1'', inv_token = ''tok9'',
          inv_expiresAt = 604800500\<rparr>"
  by (simp add: createJoinRequest_def createInvitation_def findProjectByCode_def
      findPendingRequest_def findProject_def checkProjectAccess_def findMembership_def
      ensureTenantAccess_def canAdmin_def isMemberOf_def membersOf_def
      notification_create_def sendInvitationEmail_def case_defs Let_def demo_checks
      demo_defs alice_def bob_def envSinkDown_def)

text \<open>
  C9 asks that a failing notification never fails a lifecycle operation. The two
  resolution routes do not meet it: when the notification table rejects the write,
  accepting a join request (of a requester who is not yet a member) and declining one,
  by a caller holding an Owner or Admin row on the existing project of the request,
  hand the error to the error handler instead of answering with success. The status
  transition, and for accept the new membership, have been written by then.
\<close>

theorem join_request_resolution_propagates_sink_failure:
  "(e_sink env = Fails \<and> findJoinRequest db rid = Some request \<and>
    findAdminMembership db (jr_projectId request) (pr_userId user) = Some membership \<and>
    findProject db (jr_projectId request) = Some project \<longrightarrow>
      (\<not> isMemberOf db (jr_projectId request) (jr_userId request) \<longrightarrow>
         snd (acceptJoinRequest env db user rid) = Inl (Thrown SinkError)) \<and>
      snd (declineJoinRequest env db user rid) = Inl (Thrown SinkError))"
proof (intro conjI impI)
  assume h: "e_sink env = Fails \<and> findJoinRequest db rid = Some request \<and>
    findAdminMembership db (jr_projectId request) (pr_userId user) = Some membership \<and>
    findProject db (jr_projectId request) = Some project"
  then show "snd (declineJoinRequest env db user rid) = Inl (Thrown SinkError)"
    by (simp add: declineJoinRequest_def notification_create_def)
  assume "\<not> isMemberOf db (jr_projectId request) (jr_userId request)"
  with h findProject_id [of db "jr_projectId request" project]
  show "snd (acceptJoinRequest env db user rid) = Inl (Thrown SinkError)"
    by (simp add: acceptJoinRequest_def notification_create_def isMemberOf_def)
qed

theorem join_request_resolution_propagates_sink_failure_witness:
  "e_sink envSinkDown = Fails \<and> findJoinRequest demo ''r9'' = Some request9 \<and>
   findAdminMembership demo (jr_projectId request9) (pr_userId alice) = Some ownerRow \<and>
   findProject demo (jr_projectId request9) = Some apollo \<and>
   \<not> isMemberOf demo (jr_projectId request9) (jr_userId request9) \<and>
   snd (acceptJoinRequest envSinkDown demo alice ''r9'') = Inl (Thrown SinkError) \<and>
   findJoinRequest (fst (acceptJoinRequest envSinkDown demo alice ''r9'')) ''r9'' =
     Some (request9\<lparr>jr_status := ACCEPTED\<rparr>) \<and>
   isMemberOf (fst (acceptJoinRequest envSinkDown demo alice ''r9'')) apolloId ''u7'' \<and>
   snd (declineJoinRequest envSinkDown demo alice ''r9'') = Inl (Thrown SinkError) \<and>
   findJoinRequest (fst (declineJoinRequest envSinkDown demo alice ''r9'')) ''r9'' =
     Some (request9\<lparr>jr_status := DECLINED\<rparr>)"
proof -
  have sink: "e_sink envSinkDown = Fails"
    by (simp add: demo_defs alice_def envSinkDown_def)
  have accepted:
    "findJoinRequest (fst (acceptJoinRequest envSinkDown demo alice ''r9'')) ''r9'' =
       Some (request9\<lparr>jr_status := ACCEPTED\<rparr>)"
    "isMemberOf (fst (acceptJoinRequest envSinkDown demo alice ''r9'')) apolloId ''u7''"
    by (simp_all add: acceptJoinRequest_def findJoinRequest_def findAdminMembership_def
        findProject_def membersOf_def isMemberOf_def joinRequest_update_def
        projectMember_create_def notification_create_def demo_defs alice_def envSinkDown_def)
  have declined:
    "findJoinRequest (fst (declineJoinRequest envSinkDown demo alice ''r9'')) ''r9'' =
       Some (request9\<lparr>jr_status := DECLINED\<rparr>)"
    by (simp add: declineJoinRequest_def findJoinRequest_def findAdminMembership_def
        findProject_def joinRequest_update_def notification_create_def demo_defs alice_def envSinkDown_def)
  show ?thesis
    using join_request_resolution_propagates_sink_failure
        [of envSinkDown demo "''r9''" request9 alice ownerRow apollo]
    by (simp add: demo_requests sink accepted declined)
qed

section \<open>Join codes\<close>

lemma of_char_toUpperCase_char:
  "(of_char (toUpperCase_char c) :: nat) =
     (if 97 \<le> (of_char c :: nat) \<and> (of_char c :: nat) \<le> 122 then of_char c - 32 else of_char c)"
  by (auto simp: toUpperCase_char_def)

lemma of_char_toLowerCase_char:
  "(of_char (toLowerCase_char c) :: nat) =
     (if 65 \<le> (of_char c :: nat) \<and> (of_char c :: nat) \<le> 90 then of_char c + 32 else of_char c)"
  by (auto simp: toLowerCase_char_def)






lemma sameIgnoringCase_upper: "sameIgnoringCase c (toUpperCase c)"
proof -
  have "toLowerCase_char (toUpperCase_char x) = toLowerCase_char x" for x
  proof -
    have "(of_char (toLowerCase_char (toUpperCase_char x)) :: nat) = of_char (toLowerCase_char x)"
      unfolding of_char_toLowerCase_char of_char_toUpperCase_char by auto
    then show ?thesis by (simp only: of_char_eq_iff)
  qed
  then show ?thesis
    by (simp add: sameIgnoringCase_def toLowerCase_def toUpperCase_def)
qed











end
